theory Spec2Isabelle
  imports Complex_Main "HOL-Library.Word" "HOL-Library.Monad_Syntax"
begin

unbundle bit_operations_syntax

section \<open>Basic types\<close>

type_synonym byte = "8 word"
type_synonym uint16 = "16 word"
type_synonym uint32 = "32 word"

text \<open>Go errors. \<open>errors.New\<close> carries its message; \<open>fmt.Errorf\<close> with the two
  \<open>%d\<close> arguments of the length checks carries the format's fixed text and both
  numbers; \<open>wrapError\<close> prefixes a message to an error; the errors of \<open>os\<close> and
  \<open>encoding/json\<close> are opaque values named after the call that failed.\<close>

datatype go_error =
    ErrorNew string
  | ErrorLength string nat nat
  | ErrorWrapped string go_error
  | ErrReadFile
  | ErrWriteFile
  | ErrRename
  | ErrJSON
  | ErrJSONType

section \<open>GeoMeta: the bit-packed status word (internal/protocol/model/device.go)\<close>

text \<open>The masks of the status word, one constant per field, as the source declares them.\<close>

definition accBit :: uint32 where "accBit = 0x1"
definition locationStatusBit :: uint32 where "locationStatusBit = 0x2"
definition LatitudeTypeBit :: uint32 where "LatitudeTypeBit = 0x4"
definition LongitudeTypeBit :: uint32 where "LongitudeTypeBit = 0x8"
definition operatingStatusBit :: uint32 where "operatingStatusBit = 0x10"
definition gisEncryptionStatusBit :: uint32 where "gisEncryptionStatusBit = 0x20"
definition loadStatusBit :: uint32 where "loadStatusBit = 0x300"
definition fuelSystemStatusBit :: uint32 where "fuelSystemStatusBit = 0x400"
definition alternatorSystemStatusBit :: uint32 where "alternatorSystemStatusBit = 0x800"
definition doorLockedStatusBit :: uint32 where "doorLockedStatusBit = 0x1000"
definition frontDoorStatusBit :: uint32 where "frontDoorStatusBit = 0x2000"
definition midDoorStatusBit :: uint32 where "midDoorStatusBit = 0x4000"
definition backDoorStatusBit :: uint32 where "backDoorStatusBit = 0x8000"
definition driverDoorStatusBit :: uint32 where "driverDoorStatusBit = 0x10000"
definition customDoorStatusBit :: uint32 where "customDoorStatusBit = 0x20000"
definition gpsLocationStatusBit :: uint32 where "gpsLocationStatusBit = 0x40000"
definition beidouLocatlonStatusBit :: uint32 where "beidouLocatlonStatusBit = 0x80000"
definition glonassLocationStatusBit :: uint32 where "glonassLocationStatusBit = 0x100000"
definition galileoLocationStatusBit :: uint32 where "galileoLocationStatusBit = 0x200000"
definition drivingStatusBit :: uint32 where "drivingStatusBit = 0x400000"

record GeoMeta =
  ACCStatus :: byte
  LocationStatus :: byte
  LatitudeType :: byte
  LongitudeType :: byte
  OperatingStatus :: byte
  GeoEncryptionStatus :: byte
  LoadStatus :: byte
  FuelSystemStatus :: byte
  AlternatorSystemStatus :: byte
  DoorLockedStatus :: byte
  FrontDoorStatus :: byte
  MidDoorStatus :: byte
  BackDoorStatus :: byte
  DriverDoorStatus :: byte
  CustomDoorStatus :: byte
  GPSLocationStatus :: byte
  BeidouLocationStatus :: byte
  GLONASSLocationStatus :: byte
  GalileoLocationStatus :: byte
  DrivingStatus :: byte

text \<open>\<open>uint8((status & mask) >> k)\<close>: mask, logical shift right, keep the low eight bits.\<close>

definition status_field :: "uint32 \<Rightarrow> uint32 \<Rightarrow> nat \<Rightarrow> byte" where
  "status_field status msk k = ucast (drop_bit k (status AND msk))"

text \<open>\<open>GeoMeta.Decode\<close>: every field is overwritten, so the receiver's old value plays no part.\<close>

definition GeoMeta_Decode :: "uint32 \<Rightarrow> GeoMeta" where
  "GeoMeta_Decode status =
     \<lparr> ACCStatus = ucast (status AND accBit),
       LocationStatus = status_field status locationStatusBit 1,
       LatitudeType = status_field status LatitudeTypeBit 2,
       LongitudeType = status_field status LongitudeTypeBit 3,
       OperatingStatus = status_field status operatingStatusBit 4,
       GeoEncryptionStatus = status_field status gisEncryptionStatusBit 5,
       LoadStatus = status_field status loadStatusBit 8,
       FuelSystemStatus = status_field status fuelSystemStatusBit 10,
       AlternatorSystemStatus = status_field status alternatorSystemStatusBit 11,
       DoorLockedStatus = status_field status doorLockedStatusBit 12,
       FrontDoorStatus = status_field status frontDoorStatusBit 13,
       MidDoorStatus = status_field status midDoorStatusBit 14,
       BackDoorStatus = status_field status backDoorStatusBit 15,
       DriverDoorStatus = status_field status driverDoorStatusBit 16,
       CustomDoorStatus = status_field status customDoorStatusBit 17,
       GPSLocationStatus = status_field status gpsLocationStatusBit 18,
       BeidouLocationStatus = status_field status beidouLocatlonStatusBit 19,
       GLONASSLocationStatus = status_field status glonassLocationStatusBit 20,
       GalileoLocationStatus = status_field status galileoLocationStatusBit 21,
       DrivingStatus = status_field status drivingStatusBit 22 \<rparr>"

text \<open>\<open>uint32(f) << k\<close>: widen, then shift left (bits pushed past bit 31 are lost).\<close>

definition shifted :: "byte \<Rightarrow> nat \<Rightarrow> uint32" where
  "shifted f k = push_bit k (ucast f)"

text \<open>\<open>GeoMeta.Encode\<close>: the fields are summed with wrapping 32-bit addition, in the order
  of the source. Note that the source shifts \<open>LongitudeType\<close> by 2 and \<open>LatitudeType\<close> by 3.\<close>

definition GeoMeta_Encode :: "GeoMeta \<Rightarrow> uint32" where
  "GeoMeta_Encode g =
     0 + ucast (ACCStatus g)
       + shifted (LocationStatus g) 1
       + shifted (LongitudeType g) 2
       + shifted (LatitudeType g) 3
       + shifted (OperatingStatus g) 4
       + shifted (GeoEncryptionStatus g) 5
       + shifted (LoadStatus g) 8
       + shifted (FuelSystemStatus g) 10
       + shifted (AlternatorSystemStatus g) 11
       + shifted (DoorLockedStatus g) 12
       + shifted (FrontDoorStatus g) 13
       + shifted (MidDoorStatus g) 14
       + shifted (BackDoorStatus g) 15
       + shifted (DriverDoorStatus g) 16
       + shifted (CustomDoorStatus g) 17
       + shifted (GPSLocationStatus g) 18
       + shifted (BeidouLocationStatus g) 19
       + shifted (GLONASSLocationStatus g) 20
       + shifted (GalileoLocationStatus g) 21
       + shifted (DrivingStatus g) 22"

text \<open>The values the protocol allows: single-bit fields are 0 or 1, the load status is 0..3.\<close>

definition flag_ok :: "byte \<Rightarrow> bool" where
  "flag_ok f = (f = 0 \<or> f = 1)"

definition GeoMeta_valid :: "GeoMeta \<Rightarrow> bool" where
  "GeoMeta_valid g =
     (flag_ok (ACCStatus g) \<and> flag_ok (LocationStatus g) \<and> flag_ok (LatitudeType g)
      \<and> flag_ok (LongitudeType g) \<and> flag_ok (OperatingStatus g)
      \<and> flag_ok (GeoEncryptionStatus g) \<and> LoadStatus g \<le> 3
      \<and> flag_ok (FuelSystemStatus g) \<and> flag_ok (AlternatorSystemStatus g)
      \<and> flag_ok (DoorLockedStatus g) \<and> flag_ok (FrontDoorStatus g)
      \<and> flag_ok (MidDoorStatus g) \<and> flag_ok (BackDoorStatus g)
      \<and> flag_ok (DriverDoorStatus g) \<and> flag_ok (CustomDoorStatus g)
      \<and> flag_ok (GPSLocationStatus g) \<and> flag_ok (BeidouLocationStatus g)
      \<and> flag_ok (GLONASSLocationStatus g) \<and> flag_ok (GalileoLocationStatus g)
      \<and> flag_ok (DrivingStatus g))"


text \<open>The predicate \<open>below k x\<close> says that \<open>x\<close> has no bit set at position \<open>k\<close> or above;
  it states when the wrapping sum of \<open>GeoMeta.Encode\<close> carries nothing.\<close>

definition below :: "nat \<Rightarrow> uint32 \<Rightarrow> bool" where
  "below k x = (\<forall>n. bit x n \<longrightarrow> n < k)"

section \<open>Battery, WiFi and cell-tower sub-records (internal/protocol/model/device.go)\<close>

text \<open>\<open>int8\<close> fields are kept as 8-bit words; \<open>sint\<close> reads them as signed.\<close>

record Battery =
  BatteryLevel :: byte
  Charging :: bool

record WifiInfo =
  MAC :: string
  RSSI :: byte

record LBSInfo =
  MCC :: uint16
  MNC :: byte
  LAC :: uint16
  CellID :: uint32
  RSSI :: byte

text \<open>\<open>Battery.Decode\<close>: the receiver is passed in and returned, with the error (or nil).\<close>

definition Battery_Decode :: "Battery \<Rightarrow> byte list \<Rightarrow> Battery \<times> go_error option" where
  "Battery_Decode b data =
     (if length data < 2 then (b, Some (ErrorNew ''empty battery data''))
      else (b\<lparr>Charging := (data ! 0 = 1), BatteryLevel := data ! 1\<rparr>, None))"

text \<open>\<open>fmt.Sprintf("%02X", b)\<close>: two uppercase hexadecimal digits.\<close>

definition hex_digit :: "nat \<Rightarrow> char" where
  "hex_digit n = ''0123456789ABCDEF'' ! (n mod 16)"

definition hex02X :: "byte \<Rightarrow> string" where
  "hex02X b = [hex_digit (unat b div 16), hex_digit (unat b mod 16)]"

text \<open>Go's conversion of a floating-point number to an integer type drops the fraction
  (truncation towards zero).\<close>

definition trunc_to_int :: "rat \<Rightarrow> int" where
  "trunc_to_int q = (if q < 0 then - \<lfloor>- q\<rfloor> else \<lfloor>q\<rfloor>)"

text \<open>\<open>byteToDBM\<close>. The source computes \<open>-90.0 + (float64(b)/255.0)*60.0\<close> in \<open>float64\<close> and
  converts to \<open>int8\<close>. The model evaluates the same expression in exact rational
  arithmetic; the result lies between -90 and -30, so the conversion to \<open>int8\<close> never
  wraps. For the bytes 0 and 255, used below, every \<open>float64\<close> operation is exact.\<close>

definition byteToDBM :: "byte \<Rightarrow> byte" where
  "byteToDBM b =
     (let unsignedByte = b;
          dBm = - 90 + (rat_of_nat (unat unsignedByte) / 255) * 60
      in word_of_int (trunc_to_int dBm))"

text \<open>One iteration of the loop of \<open>WifiList.Decode\<close>: the record built from \<open>data\<close> at index
  \<open>i\<close>. The slice \<open>data[offset : offset+7]\<close> is in range by the length check before the loop.\<close>

definition wifi_record :: "byte list \<Rightarrow> nat \<Rightarrow> WifiInfo" where
  "wifi_record data i =
     (let offset = 1 + i * 7;
          apData = take 7 (drop offset data)
      in \<lparr> MAC = hex02X (apData ! 0) @ hex02X (apData ! 1) @ hex02X (apData ! 2)
                 @ hex02X (apData ! 3) @ hex02X (apData ! 4) @ hex02X (apData ! 5),
           RSSI = byteToDBM (apData ! 0) \<rparr>)"

text \<open>\<open>WifiList.Decode\<close>: the receiver list is replaced on success and kept on error.\<close>

definition WifiList_Decode :: "WifiInfo list \<Rightarrow> byte list \<Rightarrow> WifiInfo list \<times> go_error option" where
  "WifiList_Decode wifis data =
     (if length data < 1 then (wifis, Some (ErrorNew ''empty wifi data''))
      else let apCount = unat (data ! 0) in
        if length data \<noteq> 1 + apCount * 7
        then (wifis, Some (ErrorLength ''invalid wifi data length'' (1 + apCount * 7) (length data)))
        else (map (wifi_record data) [0..<apCount], None))"

text \<open>One iteration of the loop of \<open>LBSList.Decode\<close>. \<open>binary.BigEndian.Uint32\<close> of a
  four-byte slice is \<open>b0<<24 | b1<<16 | b2<<8 | b3\<close>.\<close>

definition BigEndian_Uint32 :: "byte list \<Rightarrow> uint32" where
  "BigEndian_Uint32 b =
     ucast (b ! 3) OR push_bit 8 (ucast (b ! 2)) OR push_bit 16 (ucast (b ! 1))
       OR push_bit 24 (ucast (b ! 0))"

definition lbs_record :: "byte list \<Rightarrow> nat \<Rightarrow> LBSInfo" where
  "lbs_record data i =
     (let offset = 1 + i * 10;
          lbsData = take 10 (drop offset data)
      in \<lparr> MCC = push_bit 8 (ucast (lbsData ! 0)) OR ucast (lbsData ! 1),
           MNC = lbsData ! 2,
           LAC = push_bit 8 (ucast (lbsData ! 3)) OR ucast (lbsData ! 4),
           CellID = BigEndian_Uint32 (take 4 (drop 5 lbsData)),
           RSSI = lbsData ! 9 \<rparr>)"

text \<open>\<open>LBSList.Decode\<close>. The message of the empty-input error is the source's.\<close>

definition LBSList_Decode :: "LBSInfo list \<Rightarrow> byte list \<Rightarrow> LBSInfo list \<times> go_error option" where
  "LBSList_Decode lbss data =
     (if length data < 1 then (lbss, Some (ErrorNew ''empty wifi data''))
      else let cellCount = unat (data ! 0) in
        if length data \<noteq> 1 + cellCount * 10
        then (lbss, Some (ErrorLength ''invalid lbs data length'' (1 + cellCount * 10) (length data)))
        else (map (lbs_record data) [0..<cellCount], None))"


section \<open>The codec helpers of package \<open>hex\<close>\<close>

text \<open>A Go byte slice: \<open>elems\<close> are the bytes below its length, \<open>spare\<close> the bytes of the
  backing array between its length and its capacity. An index expression \<open>s[i]\<close> is checked
  against the length, a slice expression \<open>s[lo:hi]\<close> against the capacity.\<close>

record go_bytes =
  elems :: "byte list"
  spare :: "byte list"

text \<open>A function that panics returns \<open>None\<close>; one that returns normally returns \<open>Some\<close>.\<close>

definition index_at :: "go_bytes \<Rightarrow> nat \<Rightarrow> byte option" where
  "index_at s i = (if i < length (elems s) then Some (elems s ! i) else None)"

definition slice_of :: "go_bytes \<Rightarrow> nat \<Rightarrow> nat \<Rightarrow> byte list option" where
  "slice_of s lo hi =
     (if lo \<le> hi \<and> hi \<le> length (elems s) + length (spare s)
      then Some (take (hi - lo) (drop lo (elems s @ spare s))) else None)"

definition BigEndian_Uint16 :: "byte list \<Rightarrow> uint16" where
  "BigEndian_Uint16 b = ucast (b ! 1) OR push_bit 8 (ucast (b ! 0))"

text \<open>Modelled from the spec: \<open>hex.ReadDoubleWord\<close> is not under src/. By section 4.1 of
  the specification it reads four bytes as a big-endian unsigned number and advances the
  index by four. It has no error result: where the body ends before the four bytes, the
  model does not return.\<close>

definition ReadDoubleWord :: "byte list \<Rightarrow> nat \<Rightarrow> (uint32 \<times> nat) option" where
  "ReadDoubleWord pkt idx =
     (if idx + 4 \<le> length pkt then Some (BigEndian_Uint32 (take 4 (drop idx pkt)), idx + 4)
      else None)"

text \<open>Modelled from the spec: \<open>hex.ReadWord\<close> is not under src/. It reads two bytes as a
  big-endian unsigned number and advances the index by two, and does not return where the
  body ends before them.\<close>

definition ReadWord :: "byte list \<Rightarrow> nat \<Rightarrow> (uint16 \<times> nat) option" where
  "ReadWord pkt idx =
     (if idx + 2 \<le> length pkt then Some (BigEndian_Uint16 (take 2 (drop idx pkt)), idx + 2)
      else None)"

text \<open>Modelled from the spec: \<open>hex.ReadBCD\<close> is not under src/. It reads \<open>n\<close> bytes of
  binary-coded decimal, two digits a byte with the high half first, as a string of \<open>2n\<close>
  digits, and advances the index by \<open>n\<close>. A half byte above nine, which the specification
  does not cover, is rendered as its hexadecimal letter.\<close>

definition ReadBCD :: "byte list \<Rightarrow> nat \<Rightarrow> nat \<Rightarrow> (string \<times> nat) option" where
  "ReadBCD pkt idx n =
     (if idx + n \<le> length pkt then Some (concat (map hex02X (take n (drop idx pkt))), idx + n)
      else None)"

text \<open>Modelled from the spec: \<open>hex.WriteDoubleWord\<close> is not under src/. It appends the four
  bytes of the number, most significant first.\<close>

definition WriteDoubleWord :: "byte list \<Rightarrow> uint32 \<Rightarrow> byte list" where
  "WriteDoubleWord pkt v =
     pkt @ [ucast (drop_bit 24 v), ucast (drop_bit 16 v), ucast (drop_bit 8 v), ucast v]"

text \<open>Modelled from the spec: \<open>hex.WriteWord\<close> is not under src/. It appends the two bytes of
  the number, most significant first.\<close>

definition WriteWord :: "byte list \<Rightarrow> uint16 \<Rightarrow> byte list" where
  "WriteWord pkt v = pkt @ [ucast (drop_bit 8 v), ucast v]"

text \<open>Modelled from the spec: \<open>hex.WriteBCD\<close> is not under src/. It appends one byte for every
  two decimal digits of the string, the first digit in the high half. The specification
  covers strings of an even number of decimal digits only; for any other character the
  model takes the low four bits of its code, and a last odd character fills the high half
  of a byte.\<close>

definition bcd_digit :: "char \<Rightarrow> nat" where
  "bcd_digit c = of_char c mod 16"

fun Str2BCD :: "string \<Rightarrow> byte list" where
  "Str2BCD (c1 # c2 # cs) = of_nat (bcd_digit c1 * 16 + bcd_digit c2) # Str2BCD cs"
| "Str2BCD [c] = [of_nat (bcd_digit c * 16)]"
| "Str2BCD [] = []"

definition WriteBCD :: "byte list \<Rightarrow> string \<Rightarrow> byte list" where
  "WriteBCD pkt s = pkt @ Str2BCD s"

section \<open>Msg0200: the location report (src/unnamed/part_002)\<close>

text \<open>\<open>MsgHeader\<close> and \<open>PacketData\<close> are declared outside src/. The header is only copied, so
  its type is a parameter; of \<open>PacketData\<close> the two fields the decoder reads are kept.\<close>

record 'h Msg0200 =
  Header :: 'h
  AlarmSign :: uint32
  StatusSign :: uint32
  Latitude :: uint32
  Longitude :: uint32
  Altitude :: uint16
  Speed :: uint16
  Direction :: uint16
  Time :: string
  AttachData :: "byte \<rightharpoonup> byte list"

record 'h PacketData =
  Header :: 'h
  Body :: go_bytes

text \<open>The TLV loop of \<open>Msg0200.Decode\<close>. The tag and the length byte are read by index
  expressions, the value by a slice expression; \<open>None\<close> is the run-time panic of either.\<close>

function attach_loop ::
  "go_bytes \<Rightarrow> nat \<Rightarrow> (byte \<rightharpoonup> byte list) \<Rightarrow> (byte \<rightharpoonup> byte list) option" where
  "attach_loop pkt idx att =
     (if idx < length (elems pkt) then
        (case index_at pkt idx of
           None \<Rightarrow> None
         | Some attachID \<Rightarrow>
            (case index_at pkt (idx + 1) of
               None \<Rightarrow> None
             | Some lengthByte \<Rightarrow>
                (let len = unat lengthByte in
                 case slice_of pkt (idx + 2) (idx + 2 + len) of
                   None \<Rightarrow> None
                 | Some val \<Rightarrow> attach_loop pkt (idx + 2 + len) (att(attachID \<mapsto> val)))))
      else Some att)"
  by pat_completeness auto
termination
  by (relation "measure (\<lambda>(pkt, idx, att). length (elems pkt) - idx)") auto

text \<open>\<open>Msg0200.Decode\<close>. The receiver is passed in; the result is \<open>None\<close> when the function
  panics, and otherwise the receiver with the error the function returns.\<close>

definition Msg0200_Decode ::
  "'h Msg0200 \<Rightarrow> 'h PacketData \<Rightarrow> ('h Msg0200 \<times> go_error option) option" where
  "Msg0200_Decode m packet = do {
     let m = m\<lparr>Msg0200.Header := PacketData.Header packet\<rparr>;
     let pkt = elems (Body packet);
     (v, idx) \<leftarrow> ReadDoubleWord pkt 0;
     let m = m\<lparr>AlarmSign := v\<rparr>;
     (v, idx) \<leftarrow> ReadDoubleWord pkt idx;
     let m = m\<lparr>StatusSign := v\<rparr>;
     (v, idx) \<leftarrow> ReadDoubleWord pkt idx;
     let m = m\<lparr>Latitude := v\<rparr>;
     (v, idx) \<leftarrow> ReadDoubleWord pkt idx;
     let m = m\<lparr>Longitude := v\<rparr>;
     (v, idx) \<leftarrow> ReadWord pkt idx;
     let m = m\<lparr>Altitude := v\<rparr>;
     (v, idx) \<leftarrow> ReadWord pkt idx;
     let m = m\<lparr>Speed := v\<rparr>;
     (v, idx) \<leftarrow> ReadWord pkt idx;
     let m = m\<lparr>Direction := v\<rparr>;
     (v, idx) \<leftarrow> ReadBCD pkt idx 6;
     let m = m\<lparr>Time := v\<rparr>;
     att \<leftarrow> attach_loop (Body packet) idx Map.empty;
     Some (m\<lparr>AttachData := att\<rparr>, None)
   }"

text \<open>The value \<open>m.AttachData[id]\<close>: a missing key reads as the empty slice.\<close>

definition attach_value :: "(byte \<rightharpoonup> byte list) \<Rightarrow> byte \<Rightarrow> byte list" where
  "attach_value att k = (case att k of None \<Rightarrow> [] | Some v \<Rightarrow> v)"

text \<open>One entry of the attachment loop of \<open>Msg0200.Encode\<close>: tag, \<open>byte(len(value))\<close>
  (the length modulo 256), value.\<close>

definition append_attach :: "(byte \<rightharpoonup> byte list) \<Rightarrow> byte list \<Rightarrow> byte \<Rightarrow> byte list" where
  "append_attach att pkt k =
     (let val = attach_value att k in (pkt @ [k]) @ [of_nat (length val)] @ val)"

text \<open>The body that \<open>Msg0200.Encode\<close> builds before it hands it to \<open>writeHeader\<close>. Go leaves
  the order in which \<open>range\<close> visits a map open: \<open>ids\<close> is that order, any list of the keys
  without repetition. \<open>sort.Slice\<close> with the unsigned \<open>\<le>\<close> of bytes orders the keys.\<close>

definition range_order :: "(byte \<rightharpoonup> byte list) \<Rightarrow> byte list \<Rightarrow> bool" where
  "range_order att ids = (distinct ids \<and> set ids = dom att)"

definition Msg0200_Encode_body :: "'h Msg0200 \<Rightarrow> byte list \<Rightarrow> byte list" where
  "Msg0200_Encode_body m ids =
     (let pkt = [];
          pkt = WriteDoubleWord pkt (AlarmSign m);
          pkt = WriteDoubleWord pkt (StatusSign m);
          pkt = WriteDoubleWord pkt (Latitude m);
          pkt = WriteDoubleWord pkt (Longitude m);
          pkt = WriteWord pkt (Altitude m);
          pkt = WriteWord pkt (Speed m);
          pkt = WriteWord pkt (Direction m);
          pkt = WriteBCD pkt (Time m);
          attachIDs = sort ids
      in foldl (append_attach (AttachData m)) pkt attachIDs)"

text \<open>\<open>Msg0200.Encode\<close>: \<open>writeHeader\<close> is not under src/ and is a parameter.\<close>

definition Msg0200_Encode ::
  "('h Msg0200 \<Rightarrow> byte list \<Rightarrow> byte list \<times> go_error option) \<Rightarrow> 'h Msg0200 \<Rightarrow> byte list
     \<Rightarrow> byte list \<times> go_error option" where
  "Msg0200_Encode writeHeader m ids = writeHeader m (Msg0200_Encode_body m ids)"

text \<open>What the claims call a valid report: a timestamp of twelve decimal digits and
  attachment values of at most 255 bytes (the integer fields have their range by type).\<close>

definition decimal_digits :: "string \<Rightarrow> bool" where
  "decimal_digits s = (set s \<subseteq> set ''0123456789'')"

definition Msg0200_valid :: "'h Msg0200 \<Rightarrow> bool" where
  "Msg0200_valid m =
     (length (Time m) = 12 \<and> decimal_digits (Time m)
      \<and> (\<forall>k v. AttachData m k = Some v \<longrightarrow> length v \<le> 255))"

text \<open>The tags of a TLV sequence in wire order, read the way a receiver walks it; \<open>None\<close>
  when the bytes are not a whole number of entries.\<close>

function wire_tags :: "byte list \<Rightarrow> byte list option" where
  "wire_tags [] = Some []"
| "wire_tags [t] = None"
| "wire_tags (t # l # rest) =
     (if unat l \<le> length rest then map_option ((#) t) (wire_tags (drop (unat l) rest))
      else None)"
  by pat_completeness auto
termination
  by (relation "measure length") auto


section \<open>DeviceGeo: the snapshot derived from a location report (device.go)\<close>

text \<open>The \<open>float64\<close> fields are kept as exact rationals: the quotients of the source
  without the rounding of the floating-point division.\<close>

definition LocationAccuracy :: rat where "LocationAccuracy = 1000000"
definition SpeedAccuracy :: rat where "SpeedAccuracy = 10"

record Location =
  Latitude :: rat
  Longitude :: rat
  Altitude :: uint16

record Drive =
  Speed :: rat
  Direction :: uint16

text \<open>Pointer fields and slices are \<open>option\<close>s: \<open>None\<close> is nil, and \<open>Some []\<close> is an empty
  slice that is not nil. The type of \<open>time.Time\<close> values is a parameter.\<close>

record 't DeviceGeo =
  Phone :: string
  Geo :: "GeoMeta option"
  Location :: "Location option"
  Drive :: "Drive option"
  Time :: 't
  WifiInfos :: "WifiInfo list option"
  LBSInfos :: "LBSInfo list option"
  Battery :: "Battery option"
  CsqLevel :: byte
  Sattelite :: byte

definition Location_Decode :: "Location \<Rightarrow> 'h Msg0200 \<Rightarrow> Location" where
  "Location_Decode l m =
     l\<lparr> Location.Latitude := rat_of_nat (unat (Msg0200.Latitude m)) / LocationAccuracy,
        Location.Longitude := rat_of_nat (unat (Msg0200.Longitude m)) / LocationAccuracy,
        Location.Altitude := Msg0200.Altitude m \<rparr>"

definition Drive_Decode :: "Drive \<Rightarrow> 'h Msg0200 \<Rightarrow> Drive" where
  "Drive_Decode d m =
     d\<lparr> Drive.Speed := rat_of_nat (unat (Msg0200.Speed m)) / SpeedAccuracy,
        Drive.Direction := Msg0200.Direction m \<rparr>"

text \<open>The zero values \<open>&Location{}\<close>, \<open>&Drive{}\<close> and \<open>&Battery{}\<close>.\<close>

definition zero_Location :: Location where
  "zero_Location = \<lparr> Location.Latitude = 0, Location.Longitude = 0, Location.Altitude = 0 \<rparr>"

definition zero_Drive :: Drive where
  "zero_Drive = \<lparr> Drive.Speed = 0, Drive.Direction = 0 \<rparr>"

definition zero_Battery :: Battery where
  "zero_Battery = \<lparr> BatteryLevel = 0, Charging = False \<rparr>"

text \<open>The five attachment blocks of \<open>DeviceGeo.Decode\<close>. Each sub-decoder returns its receiver
  and an error; the source drops the error, and so does \<open>fst\<close> here.\<close>

definition decode_wifi :: "'t DeviceGeo \<Rightarrow> 'h Msg0200 \<Rightarrow> 't DeviceGeo" where
  "decode_wifi dg m =
     (case AttachData m 0x54 of
        Some data \<Rightarrow>
          if 2 \<le> length data
          then (let wifis = []; wifis = fst (WifiList_Decode wifis data)
                in dg\<lparr>WifiInfos := Some wifis\<rparr>)
          else dg
      | None \<Rightarrow> dg)"

definition decode_lbs :: "'t DeviceGeo \<Rightarrow> 'h Msg0200 \<Rightarrow> 't DeviceGeo" where
  "decode_lbs dg m =
     (case AttachData m 0x5D of
        Some data \<Rightarrow>
          if 2 \<le> length data
          then (let LBSs = []; LBSs = fst (LBSList_Decode LBSs data)
                in dg\<lparr>LBSInfos := Some LBSs\<rparr>)
          else dg
      | None \<Rightarrow> dg)"

definition decode_battery :: "'t DeviceGeo \<Rightarrow> 'h Msg0200 \<Rightarrow> 't DeviceGeo" where
  "decode_battery dg m =
     (case AttachData m 0x04 of
        Some data \<Rightarrow>
          if 2 \<le> length data
          then dg\<lparr>Battery := Some (fst (Battery_Decode zero_Battery data))\<rparr>
          else dg
      | None \<Rightarrow> dg)"

definition decode_csq :: "'t DeviceGeo \<Rightarrow> 'h Msg0200 \<Rightarrow> 't DeviceGeo" where
  "decode_csq dg m =
     (case AttachData m 0x30 of
        Some data \<Rightarrow> if 1 \<le> length data then dg\<lparr>CsqLevel := data ! 0\<rparr> else dg
      | None \<Rightarrow> dg)"

definition decode_satellite :: "'t DeviceGeo \<Rightarrow> 'h Msg0200 \<Rightarrow> 't DeviceGeo" where
  "decode_satellite dg m =
     (case AttachData m 0x31 of
        Some data \<Rightarrow> if 1 \<le> length data then dg\<lparr>Sattelite := data ! 0\<rparr> else dg
      | None \<Rightarrow> dg)"

text \<open>\<open>DeviceGeo.Decode\<close>: the receiver and the returned error. \<open>hex.ParseTime\<close> is not under
  src/ and is a parameter.\<close>

definition DeviceGeo_Decode ::
  "(string \<Rightarrow> 't) \<Rightarrow> 't DeviceGeo \<Rightarrow> string \<Rightarrow> 'h Msg0200 \<Rightarrow> 't DeviceGeo \<times> go_error option" where
  "DeviceGeo_Decode ParseTime dg phone m =
     (let dg = dg\<lparr>Phone := phone\<rparr>;
          geoMetaInstance = GeoMeta_Decode (StatusSign m);
          dg = dg\<lparr>Geo := Some geoMetaInstance\<rparr>;
          locInstance = Location_Decode zero_Location m;
          dg = dg\<lparr>Location := Some locInstance\<rparr>;
          driveInstance = Drive_Decode zero_Drive m;
          dg = dg\<lparr>Drive := Some driveInstance\<rparr>;
          dg = dg\<lparr>DeviceGeo.Time := ParseTime (Msg0200.Time m)\<rparr>;
          dg = decode_wifi dg m;
          dg = decode_lbs dg m;
          dg = decode_battery dg m;
          dg = decode_csq dg m;
          dg = decode_satellite dg m
      in (dg, None))"

section \<open>The device cache (internal/storage/device_cache.go)\<close>

text \<open>\<open>Device\<close>. \<open>TransportProtocol\<close>, \<open>VersionType\<close> and \<open>net.Conn\<close> are declared outside
  src/ and are type parameters; the connection is an interface value that may be nil.
  \<open>time.Duration\<close> and \<open>time.Time\<close> are numbers of nanoseconds and of milliseconds.\<close>

definition DeviceStatusOffline :: byte where "DeviceStatusOffline = 0"
definition DeviceStatusOnline :: byte where "DeviceStatusOnline = 1"
definition DeviceStatusSleeping :: byte where "DeviceStatusSleeping = 2"

record ('tp, 'conn, 'vt) Device =
  ID :: string
  Plate :: string
  Phone :: string
  SessionID :: string
  TransProto :: 'tp
  Conn :: "'conn option"
  Keepalive :: int
  LastestComTime :: int
  Status :: byte
  VersionDesc :: 'vt
  ProtocolVersion :: byte
  AuthCode :: string
  IMEI :: string
  SoftwareVersion :: string

text \<open>The cache. The maps hold pointers to devices; no function of the cache writes to a
  device, so the maps of the model hold the devices themselves. The mutex is left out:
  every operation below is one critical section.\<close>

record ('tp, 'conn, 'vt) DeviceCache =
  CacheByPlate :: "string \<rightharpoonup> ('tp, 'conn, 'vt) Device"
  CacheByPhone :: "string \<rightharpoonup> ('tp, 'conn, 'vt) Device"
  updated :: bool

definition ErrDeviceNotFound :: go_error where
  "ErrDeviceNotFound = ErrorNew ''device not found''"

text \<open>The cache that \<open>GetDeviceCache\<close> builds.\<close>

definition new_DeviceCache :: "('tp, 'conn, 'vt) DeviceCache" where
  "new_DeviceCache = \<lparr> CacheByPlate = Map.empty, CacheByPhone = Map.empty, updated = False \<rparr>"

definition IsUpdated :: "('tp, 'conn, 'vt) DeviceCache \<Rightarrow> bool" where
  "IsUpdated cache = updated cache"

definition GetDeviceByPlate ::
  "('tp, 'conn, 'vt) DeviceCache \<Rightarrow> string \<Rightarrow> go_error + ('tp, 'conn, 'vt) Device" where
  "GetDeviceByPlate cache carPlate =
     (case CacheByPlate cache carPlate of Some d \<Rightarrow> Inr d | None \<Rightarrow> Inl ErrDeviceNotFound)"

definition GetDeviceByPhone ::
  "('tp, 'conn, 'vt) DeviceCache \<Rightarrow> string \<Rightarrow> go_error + ('tp, 'conn, 'vt) Device" where
  "GetDeviceByPhone cache phone =
     (case CacheByPhone cache phone of Some d \<Rightarrow> Inr d | None \<Rightarrow> Inl ErrDeviceNotFound)"

definition HasPlate :: "('tp, 'conn, 'vt) DeviceCache \<Rightarrow> string \<Rightarrow> bool" where
  "HasPlate cache carPlate = (case GetDeviceByPlate cache carPlate of Inr d \<Rightarrow> True | Inl err \<Rightarrow> False)"

definition HasPhone :: "('tp, 'conn, 'vt) DeviceCache \<Rightarrow> string \<Rightarrow> bool" where
  "HasPhone cache phone = (case GetDeviceByPhone cache phone of Inr d \<Rightarrow> True | Inl err \<Rightarrow> False)"

definition cacheDevice ::
  "('tp, 'conn, 'vt) DeviceCache \<Rightarrow> ('tp, 'conn, 'vt) Device \<Rightarrow> ('tp, 'conn, 'vt) DeviceCache" where
  "cacheDevice cache d =
     (let cache = cache\<lparr>CacheByPlate := (CacheByPlate cache)(Plate d \<mapsto> d)\<rparr>;
          cache = cache\<lparr>CacheByPhone := (CacheByPhone cache)(Device.Phone d \<mapsto> d)\<rparr>
      in cache)"

text \<open>\<open>CacheDevice\<close>: the deferred function sets the flag after \<open>cacheDevice\<close> has run.\<close>

definition CacheDevice ::
  "('tp, 'conn, 'vt) DeviceCache \<Rightarrow> ('tp, 'conn, 'vt) Device \<Rightarrow> ('tp, 'conn, 'vt) DeviceCache" where
  "CacheDevice cache d = (cacheDevice cache d)\<lparr>updated := True\<rparr>"

text \<open>\<open>delDevice\<close>: the two arguments are pointers to strings, nil or a key. The variable \<open>d\<close>
  of the source together with \<open>ok\<close> is one \<open>option\<close>: \<open>None\<close> when \<open>ok\<close> is false.\<close>

definition delDevice ::
  "('tp, 'conn, 'vt) DeviceCache \<Rightarrow> string option \<Rightarrow> string option \<Rightarrow> ('tp, 'conn, 'vt) DeviceCache" where
  "delDevice cache carPlate phone =
     (let found = None;
          found = (case carPlate of Some k \<Rightarrow> CacheByPlate cache k | None \<Rightarrow> found);
          found = (case phone of Some k \<Rightarrow> CacheByPhone cache k | None \<Rightarrow> found)
      in case found of
           None \<Rightarrow> cache
         | Some d \<Rightarrow>
            (let cache = cache\<lparr>CacheByPlate := (CacheByPlate cache)(Plate d := None)\<rparr>;
                 cache = cache\<lparr>CacheByPhone := (CacheByPhone cache)(Device.Phone d := None)\<rparr>
             in cache))"

definition DelDeviceByCarPlate ::
  "('tp, 'conn, 'vt) DeviceCache \<Rightarrow> string \<Rightarrow> ('tp, 'conn, 'vt) DeviceCache" where
  "DelDeviceByCarPlate cache carPlate = delDevice cache (Some carPlate) None"

definition DelDeviceByPhone ::
  "('tp, 'conn, 'vt) DeviceCache \<Rightarrow> string \<Rightarrow> ('tp, 'conn, 'vt) DeviceCache" where
  "DelDeviceByPhone cache phone = delDevice cache None (Some phone)"


section \<open>The persister (src/unnamed/part_001)\<close>

text \<open>The world outside the process: the files by path, and the number of times
  \<open>time.Sleep(retryDelay)\<close> has run. A file holds what \<open>encoding/json\<close> reads from it: a
  document with the two exported maps of a cache (\<open>JSONCache\<close>); a well-formed document in
  which some value has a type that does not fit, given by the entries of the two maps
  that do fit (\<open>Mistyped\<close>); or bytes that are not well-formed JSON (\<open>Malformed\<close>).\<close>

datatype 'd file_data =
    JSONCache "string \<rightharpoonup> 'd" "string \<rightharpoonup> 'd"
  | Mistyped "string \<rightharpoonup> 'd" "string \<rightharpoonup> 'd"
  | Malformed

record 'd world =
  files :: "string \<rightharpoonup> 'd file_data"
  sleeps :: nat

text \<open>What the environment does to one attempt of a save or a load: nothing, or it makes
  one of the calls fail. The schedule of an operation gives the fault of each attempt.\<close>

datatype io_fault = MarshalFault | WriteFault | RenameFault | ReadFault

type_synonym schedule = "nat \<Rightarrow> io_fault option"

definition maxRetryAttempts :: nat where "maxRetryAttempts = 3"

record Persister =
  filePath :: string
  lastSaveErr :: "go_error option"

definition wrapError :: "go_error option \<Rightarrow> string \<Rightarrow> go_error option" where
  "wrapError err msg = (case err of None \<Rightarrow> None | Some e \<Rightarrow> Some (ErrorWrapped msg e))"

text \<open>\<open>encoding/json\<close> on a \<open>DeviceCache\<close>: the exported fields \<open>CacheByPlate\<close> and
  \<open>CacheByPhone\<close> are written and read; \<open>mutex\<close> and \<open>updated\<close> are not exported and are
  neither written nor set. A device is written without its connection (tag \<open>json:"-"\<close>).
  \<open>Unmarshal\<close> checks that the bytes are well-formed before it stores anything, and
  returns a syntax error otherwise. On a well-formed document it stores the entries into
  the maps that are there; where a value has a type that does not fit it skips that
  value, goes on with the rest, and returns the type error at the end.\<close>

definition json_Device :: "('tp, 'conn, 'vt) Device \<Rightarrow> ('tp, 'conn, 'vt) Device" where
  "json_Device d = d\<lparr>Conn := None\<rparr>"

definition json_MarshalIndent ::
  "io_fault option \<Rightarrow> ('tp, 'conn, 'vt) DeviceCache
     \<Rightarrow> go_error + ('tp, 'conn, 'vt) Device file_data" where
  "json_MarshalIndent fault data =
     (if fault = Some MarshalFault then Inl ErrJSON
      else Inr (JSONCache (map_option json_Device \<circ> CacheByPlate data)
                          (map_option json_Device \<circ> CacheByPhone data)))"

definition json_Unmarshal ::
  "('tp, 'conn, 'vt) Device file_data \<Rightarrow> ('tp, 'conn, 'vt) DeviceCache
     \<Rightarrow> ('tp, 'conn, 'vt) DeviceCache \<times> go_error option" where
  "json_Unmarshal fileData data =
     (case fileData of
        Malformed \<Rightarrow> (data, Some ErrJSON)
      | Mistyped plates phones \<Rightarrow>
          (data\<lparr>CacheByPlate := CacheByPlate data ++ plates,
                CacheByPhone := CacheByPhone data ++ phones\<rparr>, Some ErrJSONType)
      | JSONCache plates phones \<Rightarrow>
          (data\<lparr>CacheByPlate := CacheByPlate data ++ plates,
                CacheByPhone := CacheByPhone data ++ phones\<rparr>, None))"

text \<open>\<open>os.ReadFile\<close>: the content, the error that \<open>os.IsNotExist\<close> recognises, or another
  error.\<close>

datatype 'd read_result = FileData "'d file_data" | NotExist | ReadError

definition os_ReadFile :: "io_fault option \<Rightarrow> 'd world \<Rightarrow> string \<Rightarrow> 'd read_result" where
  "os_ReadFile fault w path =
     (if fault = Some ReadFault then ReadError
      else case files w path of None \<Rightarrow> NotExist | Some c \<Rightarrow> FileData c)"

text \<open>\<open>atomicSave\<close>: marshal, write the temporary file, rename it over the target.\<close>

definition atomicSave ::
  "Persister \<Rightarrow> io_fault option \<Rightarrow> ('tp, 'conn, 'vt) Device world \<Rightarrow> ('tp, 'conn, 'vt) DeviceCache
     \<Rightarrow> ('tp, 'conn, 'vt) Device world \<times> go_error option" where
  "atomicSave p fault w data =
     (let tmpFile = filePath p @ ''.tmp'' in
      case json_MarshalIndent fault data of
        Inl err \<Rightarrow> (w, Some err)
      | Inr jsonData \<Rightarrow>
          if fault = Some WriteFault then (w, Some ErrWriteFile)
          else let w = w\<lparr>files := (files w)(tmpFile \<mapsto> jsonData)\<rparr> in
            if fault = Some RenameFault then (w, Some ErrRename)
            else (w\<lparr>files := ((files w)(tmpFile := None))(filePath p \<mapsto> jsonData)\<rparr>, None))"

text \<open>The loop of \<open>saveWithRetry\<close> from attempt \<open>i\<close> on, with the last error in \<open>err\<close>.\<close>

function saveWithRetry_from ::
  "Persister \<Rightarrow> schedule \<Rightarrow> nat \<Rightarrow> go_error option \<Rightarrow> ('tp, 'conn, 'vt) Device world
     \<Rightarrow> ('tp, 'conn, 'vt) DeviceCache \<Rightarrow> ('tp, 'conn, 'vt) Device world \<times> go_error option" where
  "saveWithRetry_from p sched i err w data =
     (if i < maxRetryAttempts then
        (case atomicSave p (sched i) w data of
           (w, None) \<Rightarrow> (w, None)
         | (w, Some e) \<Rightarrow>
             saveWithRetry_from p sched (i + 1) (Some e) (w\<lparr>sleeps := sleeps w + 1\<rparr>) data)
      else (w, wrapError err ''save failed after retries''))"
  by pat_completeness auto
termination
  by (relation "measure (\<lambda>(p, sched, i, err, w, data). maxRetryAttempts - i)") auto

definition saveWithRetry ::
  "Persister \<Rightarrow> schedule \<Rightarrow> ('tp, 'conn, 'vt) Device world \<Rightarrow> ('tp, 'conn, 'vt) DeviceCache
     \<Rightarrow> ('tp, 'conn, 'vt) Device world \<times> go_error option" where
  "saveWithRetry p sched w data = saveWithRetry_from p sched 0 None w data"

text \<open>\<open>atomicLoad\<close>: the entity after the call and the error.\<close>

definition atomicLoad ::
  "Persister \<Rightarrow> io_fault option \<Rightarrow> ('tp, 'conn, 'vt) Device world \<Rightarrow> ('tp, 'conn, 'vt) DeviceCache
     \<Rightarrow> ('tp, 'conn, 'vt) DeviceCache \<times> go_error option" where
  "atomicLoad p fault w data =
     (case os_ReadFile fault w (filePath p) of
        NotExist \<Rightarrow> (data, None)
      | ReadError \<Rightarrow> (data, Some ErrReadFile)
      | FileData fileData \<Rightarrow> json_Unmarshal fileData data)"

function loadWithRetry_from ::
  "Persister \<Rightarrow> schedule \<Rightarrow> nat \<Rightarrow> go_error option \<Rightarrow> ('tp, 'conn, 'vt) Device world
     \<Rightarrow> ('tp, 'conn, 'vt) DeviceCache
     \<Rightarrow> ('tp, 'conn, 'vt) Device world \<times> ('tp, 'conn, 'vt) DeviceCache \<times> go_error option" where
  "loadWithRetry_from p sched i err w data =
     (if i < maxRetryAttempts then
        (case atomicLoad p (sched i) w data of
           (data, None) \<Rightarrow> (w, data, None)
         | (data, Some e) \<Rightarrow>
             loadWithRetry_from p sched (i + 1) (Some e) (w\<lparr>sleeps := sleeps w + 1\<rparr>) data)
      else (w, data, wrapError err ''load failed after retries''))"
  by pat_completeness auto
termination
  by (relation "measure (\<lambda>(p, sched, i, err, w, data). maxRetryAttempts - i)") auto

definition loadWithRetry ::
  "Persister \<Rightarrow> schedule \<Rightarrow> ('tp, 'conn, 'vt) Device world \<Rightarrow> ('tp, 'conn, 'vt) DeviceCache
     \<Rightarrow> ('tp, 'conn, 'vt) Device world \<times> ('tp, 'conn, 'vt) DeviceCache \<times> go_error option" where
  "loadWithRetry p sched w data = loadWithRetry_from p sched 0 None w data"

text \<open>\<open>Save\<close> and \<open>Load\<close> hold the entity's lock around the retry loop. \<open>Save\<close> has no
  access to the entity but \<open>Lock\<close>, \<open>Unlock\<close>, \<open>IsUpdated\<close> and the marshaller, none of which
  writes a field, so the entity after \<open>Save\<close> is the entity before it.\<close>

definition Save ::
  "Persister \<Rightarrow> schedule \<Rightarrow> ('tp, 'conn, 'vt) Device world \<Rightarrow> ('tp, 'conn, 'vt) DeviceCache
     \<Rightarrow> ('tp, 'conn, 'vt) Device world \<times> ('tp, 'conn, 'vt) DeviceCache \<times> go_error option" where
  "Save p sched w data = (case saveWithRetry p sched w data of (w, err) \<Rightarrow> (w, data, err))"

definition Load ::
  "Persister \<Rightarrow> schedule \<Rightarrow> ('tp, 'conn, 'vt) Device world \<Rightarrow> ('tp, 'conn, 'vt) DeviceCache
     \<Rightarrow> ('tp, 'conn, 'vt) Device world \<times> ('tp, 'conn, 'vt) DeviceCache \<times> go_error option" where
  "Load p sched w data = loadWithRetry p sched w data"

text \<open>One tick of the loop of \<open>autoSave\<close>: the persister, the world and the entity after it.\<close>

definition autoSave_tick ::
  "Persister \<Rightarrow> schedule \<Rightarrow> ('tp, 'conn, 'vt) Device world \<Rightarrow> ('tp, 'conn, 'vt) DeviceCache
     \<Rightarrow> Persister \<times> ('tp, 'conn, 'vt) Device world \<times> ('tp, 'conn, 'vt) DeviceCache" where
  "autoSave_tick p sched w obj =
     (if IsUpdated obj
      then (case saveWithRetry p sched w obj of (w, err) \<Rightarrow> (p\<lparr>lastSaveErr := err\<rparr>, w, obj))
      else (p, w, obj))"


section \<open>Auxiliary notions of the proofs\<close>

text \<open>What the claims say of a cell-tower record, in their words: two big-endian bytes of
  country code, one byte of network code, two big-endian bytes of area code, four big-endian
  bytes of cell id, one signed byte of signal strength, read from record \<open>i\<close> of \<open>data\<close>.\<close>

definition lbs_layout :: "byte list \<Rightarrow> nat \<Rightarrow> LBSInfo \<Rightarrow> bool" where
  "lbs_layout data i r =
     (let b = (\<lambda>j. data ! (1 + 10 * i + j)) in
        unat (MCC r) = 256 * unat (b 0) + unat (b 1)
      \<and> MNC r = b 2
      \<and> unat (LAC r) = 256 * unat (b 3) + unat (b 4)
      \<and> unat (CellID r) =
            16777216 * unat (b 5) + 65536 * unat (b 6) + 256 * unat (b 7) + unat (b 8)
      \<and> sint (LBSInfo.RSSI r) = sint (b 9))"

text \<open>The bytes that \<open>WriteDoubleWord\<close> and \<open>WriteWord\<close> append, the fixed part of an encoded
  body, one attachment entry of it, and the attachment map after the decoder's loop has
  stored the entries of the keys \<open>ks\<close> in order.\<close>

definition wr32 :: "uint32 \<Rightarrow> byte list" where
  "wr32 v = [ucast (drop_bit 24 v), ucast (drop_bit 16 v), ucast (drop_bit 8 v), ucast v]"

definition wr16 :: "uint16 \<Rightarrow> byte list" where
  "wr16 v = [ucast (drop_bit 8 v), ucast v]"

definition fixed_part :: "'h Msg0200 \<Rightarrow> byte list" where
  "fixed_part m = wr32 (AlarmSign m) @ wr32 (StatusSign m) @ wr32 (Msg0200.Latitude m)
     @ wr32 (Msg0200.Longitude m) @ wr16 (Msg0200.Altitude m) @ wr16 (Msg0200.Speed m)
     @ wr16 (Msg0200.Direction m) @ Str2BCD (Msg0200.Time m)"

definition tlv_entry :: "(byte \<rightharpoonup> byte list) \<Rightarrow> byte \<Rightarrow> byte list" where
  "tlv_entry att k = k # of_nat (length (attach_value att k)) # attach_value att k"

definition stored ::
  "(byte \<rightharpoonup> byte list) \<Rightarrow> (byte \<rightharpoonup> byte list) \<Rightarrow> byte list \<Rightarrow> (byte \<rightharpoonup> byte list)" where
  "stored att acc ks = foldl (\<lambda>a k. a(k \<mapsto> attach_value att k)) acc ks"

section \<open>Sample values\<close>

definition sample_GeoMeta :: GeoMeta where
  "sample_GeoMeta =
     \<lparr> ACCStatus = 1, LocationStatus = 1, LatitudeType = 1, LongitudeType = 0,
       OperatingStatus = 0, GeoEncryptionStatus = 1, LoadStatus = 3, FuelSystemStatus = 0,
       AlternatorSystemStatus = 1, DoorLockedStatus = 0, FrontDoorStatus = 1,
       MidDoorStatus = 0, BackDoorStatus = 1, DriverDoorStatus = 0, CustomDoorStatus = 1,
       GPSLocationStatus = 1, BeidouLocationStatus = 0, GLONASSLocationStatus = 1,
       GalileoLocationStatus = 0, DrivingStatus = 1 \<rparr>"

text \<open>The report of the scenario in section 8 of the specification, with a battery
  attachment added.\<close>

definition sample_Msg0200 :: "unit Msg0200" where
  "sample_Msg0200 =
     \<lparr> Msg0200.Header = (), AlarmSign = 0, StatusSign = 3, Latitude = 31230000,
       Longitude = 121470000, Altitude = 10, Speed = 300, Direction = 90,
       Time = ''240101120000'',
       AttachData = [0x54 \<mapsto> [1, 0x80, 1, 2, 3, 4, 5, 6], 0x04 \<mapsto> [1, 80]] \<rparr>"

text \<open>A body whose only attachment declares five bytes of value and carries one.\<close>

definition overlong_body :: "byte list" where
  "overlong_body = replicate 28 0 @ [0x01, 0x05, 0xAA]"

text \<open>A device with a given plate and phone number, an empty disk, the persister of the
  cache, and the schedule in which no call fails.\<close>

definition sample_Device :: "string \<Rightarrow> string \<Rightarrow> (unit, unit, unit) Device" where
  "sample_Device plate phone =
     \<lparr> ID = ''dev'', Plate = plate, Phone = phone, SessionID = ''s1'', TransProto = (),
       Conn = Some (), Keepalive = 60000000000, LastestComTime = 0, Status = DeviceStatusOffline,
       VersionDesc = (), ProtocolVersion = 1, AuthCode = [], IMEI = [], SoftwareVersion = [] \<rparr>"

definition sample_world :: "(unit, unit, unit) Device world" where
  "sample_world = \<lparr> files = Map.empty, sleeps = 0 \<rparr>"

definition sample_Persister :: Persister where
  "sample_Persister = \<lparr> filePath = ''device_cache.json'', lastSaveErr = None \<rparr>"

definition no_faults :: schedule where
  "no_faults = (\<lambda>i. None)"

text \<open>A disk that holds a snapshot with one device, and the cache of a fresh process after
  it has loaded that snapshot.\<close>

definition snapshot_world :: "(unit, unit, unit) Device world" where
  "snapshot_world =
     \<lparr> files = [''device_cache.json'' \<mapsto>
                  JSONCache [''A1'' \<mapsto> json_Device (sample_Device ''A1'' ''138'')]
                            [''138'' \<mapsto> json_Device (sample_Device ''A1'' ''138'')]],
       sleeps = 0 \<rparr>"

definition loaded_cache :: "(unit, unit, unit) DeviceCache" where
  "loaded_cache = fst (snd (Load sample_Persister no_faults snapshot_world new_DeviceCache))"

text \<open>A report whose WiFi and cell-tower attachments declare more records than they carry,
  a report whose WiFi, cell-tower and battery attachments are one byte long, and the zero
  value of \<open>DeviceGeo\<close>.\<close>

definition sample_geo_Msg0200 :: "unit Msg0200" where
  "sample_geo_Msg0200 =
     \<lparr> Msg0200.Header = (), AlarmSign = 0, StatusSign = 3, Latitude = 31230000,
       Longitude = 121470000, Altitude = 10, Speed = 300, Direction = 90,
       Time = ''240101120000'',
       AttachData = [0x54 \<mapsto> [2, 0x80, 1, 2, 3, 4, 5, 6], 0x5D \<mapsto> [3, 0, 0],
                     0x04 \<mapsto> [1, 80]] \<rparr>"

definition short_geo_Msg0200 :: "unit Msg0200" where
  "short_geo_Msg0200 =
     \<lparr> Msg0200.Header = (), AlarmSign = 0, StatusSign = 3, Latitude = 31230000,
       Longitude = 121470000, Altitude = 10, Speed = 300, Direction = 90,
       Time = ''240101120000'',
       AttachData = [0x54 \<mapsto> [5], 0x5D \<mapsto> [3], 0x04 \<mapsto> [1]] \<rparr>"

definition zero_DeviceGeo :: "nat DeviceGeo" where
  "zero_DeviceGeo =
     \<lparr> DeviceGeo.Phone = [], Geo = None, Location = None, Drive = None, DeviceGeo.Time = 0, WifiInfos = None,
       LBSInfos = None, Battery = None, CsqLevel = 0, Sattelite = 0 \<rparr>"

section \<open>Properties of the GeoMeta codec\<close>

lemmas status_masks =
  accBit_def locationStatusBit_def LatitudeTypeBit_def LongitudeTypeBit_def
  operatingStatusBit_def gisEncryptionStatusBit_def loadStatusBit_def
  fuelSystemStatusBit_def alternatorSystemStatusBit_def doorLockedStatusBit_def
  frontDoorStatusBit_def midDoorStatusBit_def backDoorStatusBit_def
  driverDoorStatusBit_def customDoorStatusBit_def gpsLocationStatusBit_def
  beidouLocatlonStatusBit_def glonassLocationStatusBit_def
  galileoLocationStatusBit_def drivingStatusBit_def

lemma bit_shifted: "bit (shifted f k) n \<longleftrightarrow> k \<le> n \<and> n < 32 \<and> bit f (n - k)"
  by (auto simp: shifted_def bit_simps)

lemma bit_flag: "flag_ok f \<Longrightarrow> bit f n \<longleftrightarrow> n = 0 \<and> f = 1"
  by (auto simp: flag_ok_def bit_simps)

lemma le3_cases: "(f::byte) \<le> 3 \<Longrightarrow> f = 0 \<or> f = 1 \<or> f = 2 \<or> f = 3"
proof -
  assume "f \<le> 3"
  then have "unat f \<le> 3" by (simp add: word_le_nat_alt)
  then have "unat f = 0 \<or> unat f = 1 \<or> unat f = 2 \<or> unat f = 3" by arith
  then show ?thesis unfolding word_unat_eq_iff [of f] by simp
qed

lemma bit_load: "(f::byte) \<le> 3 \<Longrightarrow> bit f n \<Longrightarrow> n < 2"
proof (rule ccontr)
  assume a: "f \<le> 3" and b: "bit f n" and c: "\<not> n < 2"
  from a have le: "unat f \<le> 3" by (simp add: word_le_nat_alt)
  from c have "(2::nat) ^ 2 \<le> 2 ^ n" by (intro power_increasing) auto
  with le have z: "unat f div 2 ^ n = 0" by simp
  from b have "bit (unat f) n" by (simp add: bit_unsigned_iff)
  with bit_iff_odd [of "unat f" n] have "odd (unat f div 2 ^ n)" by blast
  with z show False by simp
qed

lemma below_zero: "below k (shifted f 0) \<longleftrightarrow> True" if "flag_ok f" "0 < k"
  using that by (auto simp: below_def bit_shifted bit_flag)

lemma below_flag: "below k x \<Longrightarrow> flag_ok f \<Longrightarrow> k < m \<Longrightarrow> below m (x OR shifted f k)"
  by (fastforce simp: below_def bit_simps bit_shifted bit_flag)

lemma below_load: "below k x \<Longrightarrow> f \<le> 3 \<Longrightarrow> k + 2 \<le> m \<Longrightarrow> below m (x OR shifted f k)"
  by (fastforce simp: below_def bit_simps bit_shifted dest: bit_load)

lemma add_shifted: "below k x \<Longrightarrow> x + shifted f k = x OR shifted f k"
  by (rule disjunctive_add) (auto simp: below_def bit_shifted)



lemma flag_miss: "flag_ok f \<Longrightarrow> \<not> bit M j \<Longrightarrow> shifted f j AND M = 0"
  by (rule bit_word_eqI) (auto simp: bit_simps bit_shifted bit_flag)

lemma flag_hit: "flag_ok f \<Longrightarrow> bit M j \<Longrightarrow> shifted f j AND M = shifted f j"
  by (rule bit_word_eqI) (auto simp: bit_simps bit_shifted bit_flag)

lemma load_miss: "f \<le> 3 \<Longrightarrow> \<not> bit M 8 \<Longrightarrow> \<not> bit M 9 \<Longrightarrow> shifted f 8 AND M = 0"
proof (rule bit_word_eqI)
  fix n assume a: "f \<le> 3" "\<not> bit M 8" "\<not> bit M 9" "n < LENGTH(32)"
  have "bit f (n - 8) \<Longrightarrow> 8 \<le> n \<Longrightarrow> n = 8 \<or> n = 9"
    using bit_load [OF a(1), of "n - 8"] by arith
  with a show "bit (shifted f 8 AND M) n = bit (0::uint32) n"
    by (auto simp: bit_simps bit_shifted)
qed

lemma load_hit: "f \<le> 3 \<Longrightarrow> shifted f 8 AND 0x300 = shifted f 8"
  by (drule le3_cases) (auto simp: shifted_def)

lemma unshift: "k \<le> 24 \<Longrightarrow> ucast (drop_bit k (shifted f k)) = f"
  by (rule bit_word_eqI) (auto simp: bit_simps bit_shifted)


lemma GeoMeta_Encode_or:
  assumes "GeoMeta_valid g"
  shows "GeoMeta_Encode g =
     (((((((((((((((((((shifted (ACCStatus g) 0
       OR shifted (LocationStatus g) 1)
       OR shifted (LongitudeType g) 2)
       OR shifted (LatitudeType g) 3)
       OR shifted (OperatingStatus g) 4)
       OR shifted (GeoEncryptionStatus g) 5)
       OR shifted (LoadStatus g) 8)
       OR shifted (FuelSystemStatus g) 10)
       OR shifted (AlternatorSystemStatus g) 11)
       OR shifted (DoorLockedStatus g) 12)
       OR shifted (FrontDoorStatus g) 13)
       OR shifted (MidDoorStatus g) 14)
       OR shifted (BackDoorStatus g) 15)
       OR shifted (DriverDoorStatus g) 16)
       OR shifted (CustomDoorStatus g) 17)
       OR shifted (GPSLocationStatus g) 18)
       OR shifted (BeidouLocationStatus g) 19)
       OR shifted (GLONASSLocationStatus g) 20)
       OR shifted (GalileoLocationStatus g) 21)
       OR shifted (DrivingStatus g) 22)"
proof -
  have z: "0 + ucast (ACCStatus g) = shifted (ACCStatus g) 0"
    by (simp add: shifted_def)
  show ?thesis
    using assms unfolding GeoMeta_Encode_def GeoMeta_valid_def z
    by (simp add: add_shifted below_flag below_load below_zero)
qed

lemma status_field_or:
  "status_field (a OR b) M k = status_field a M k OR status_field b M k"
  by (rule bit_word_eqI) (auto simp: status_field_def bit_simps)

lemma status_field_hit:
  "flag_ok f \<Longrightarrow> k \<le> 24 \<Longrightarrow> bit M k \<Longrightarrow> status_field (shifted f k) M k = f"
  by (simp add: status_field_def flag_hit unshift del: drop_bit_and)

lemma status_field_miss:
  "flag_ok f \<Longrightarrow> \<not> bit M j \<Longrightarrow> status_field (shifted f j) M k = 0"
  by (simp add: status_field_def flag_miss del: drop_bit_and)

lemma status_field_load_hit:
  "f \<le> 3 \<Longrightarrow> status_field (shifted f 8) 0x300 8 = f"
  by (simp add: status_field_def load_hit unshift del: drop_bit_and)

lemma status_field_load_miss:
  "f \<le> 3 \<Longrightarrow> \<not> bit M 8 \<Longrightarrow> \<not> bit M 9 \<Longrightarrow> status_field (shifted f 8) M k = 0"
  by (simp add: status_field_def load_miss del: drop_bit_and)

lemma acc_field: "ucast (s AND 1) = status_field s 1 0"
  by (simp add: status_field_def)

text \<open>Claim C1. For every GeoMeta value whose single-bit fields are 0 or 1 and whose load
  status is at most 3, decoding the encoded status word gives back every field, except
  that the two hemisphere flags come back exchanged: \<open>Encode\<close> writes \<open>LongitudeType\<close> to
  bit 2 and \<open>LatitudeType\<close> to bit 3, \<open>Decode\<close> reads them the other way round.\<close>

theorem GeoMeta_roundtrip:
  assumes "GeoMeta_valid g"
  shows "GeoMeta_Decode (GeoMeta_Encode g) =
           g\<lparr>LatitudeType := LongitudeType g, LongitudeType := LatitudeType g\<rparr>"
proof (cases g)
  case (fields a0 a1 a2 a3 a4 a5 a8 a10 a11 a12 a13 a14 a15 a16 a17 a18 a19 a20 a21 a22)
  have v: "GeoMeta_valid g" by (rule assms)
  show ?thesis
    unfolding GeoMeta_Decode_def GeoMeta_Encode_or [OF v] status_masks acc_field
    using v unfolding GeoMeta_valid_def fields
    by (simp add: status_field_or status_field_hit status_field_miss
        status_field_load_hit status_field_load_miss)
qed

theorem GeoMeta_roundtrip_witness:
  "GeoMeta_valid sample_GeoMeta \<and>
   GeoMeta_Decode (GeoMeta_Encode sample_GeoMeta) =
     sample_GeoMeta\<lparr>LatitudeType := 0, LongitudeType := 1\<rparr>"
proof -
  have v: "GeoMeta_valid sample_GeoMeta"
    by (simp add: GeoMeta_valid_def flag_ok_def sample_GeoMeta_def)
  from GeoMeta_roundtrip [OF v] v show ?thesis
    by (simp add: sample_GeoMeta_def)
qed

section \<open>Properties of the cell-tower and WiFi decoders\<close>

lemma byte_lt: "unat (a::byte) < 256"
  using unsigned_less [of a, where ?'a = nat] by simp

lemma byte_take_bit: "8 \<le> n \<Longrightarrow> take_bit n (unat (a::byte)) = unat a"
proof -
  assume "8 \<le> n"
  then have "(2::nat) ^ 8 \<le> 2 ^ n" by (intro power_increasing) auto
  with byte_lt [of a] have "unat a < 2 ^ n" by simp
  then show ?thesis by (simp add: take_bit_nat_eq_self_iff)
qed

lemma be16_plus:
  "(push_bit 8 (ucast (a::byte)) OR ucast (b::byte) :: uint16) = push_bit 8 (ucast a) + ucast b"
  by (rule disjunctive_add [symmetric]) (auto simp: bit_simps dest: bit_imp_le_length)

lemma be16_unat:
  "unat (push_bit 8 (ucast (a::byte)) OR ucast (b::byte) :: uint16) = 256 * unat a + unat b"
proof -
  have "unat (push_bit 8 (ucast a) + ucast b :: uint16) = (unat a * 256 + unat b) mod 65536"
    by (simp add: push_bit_eq_mult unat_word_ariths unsigned_ucast_eq byte_take_bit mod_simps)
  also have "\<dots> = unat a * 256 + unat b"
    using byte_lt [of a] byte_lt [of b] by simp
  finally show ?thesis by (simp add: be16_plus)
qed

lemma be32_plus:
  "BigEndian_Uint32 xs = push_bit 24 (ucast (xs ! 0)) + push_bit 16 (ucast (xs ! 1))
     + push_bit 8 (ucast (xs ! 2)) + ucast (xs ! 3)"
proof -
  define a b c d where "a = xs ! 0" and "b = xs ! 1" and "c = xs ! 2" and "d = xs ! 3"
  have 1: "(ucast d OR push_bit 8 (ucast c) :: uint32) = ucast d + push_bit 8 (ucast c)"
    by (rule disjunctive_add [symmetric]) (auto simp: bit_simps dest: bit_imp_le_length)
  have 2: "(ucast d OR push_bit 8 (ucast c)) OR push_bit 16 (ucast b) = (ucast d OR push_bit 8 (ucast c) :: uint32) + push_bit 16 (ucast b)"
    by (rule disjunctive_add [symmetric]) (auto simp: bit_simps dest: bit_imp_le_length)
  have 3: "((ucast d OR push_bit 8 (ucast c)) OR push_bit 16 (ucast b)) OR push_bit 24 (ucast a) = ((ucast d OR push_bit 8 (ucast c)) OR push_bit 16 (ucast b) :: uint32) + push_bit 24 (ucast a)"
    by (rule disjunctive_add [symmetric]) (auto simp: bit_simps dest: bit_imp_le_length)
  have "BigEndian_Uint32 xs =
      ((ucast d OR push_bit 8 (ucast c)) OR push_bit 16 (ucast b)) OR push_bit 24 (ucast a)"
    by (simp add: BigEndian_Uint32_def or.assoc a_def b_def c_def d_def)
  also have "\<dots> = ((ucast d OR push_bit 8 (ucast c)) OR push_bit 16 (ucast b)) + push_bit 24 (ucast a)"
    by (rule 3)
  also have "\<dots> = ((ucast d OR push_bit 8 (ucast c)) + push_bit 16 (ucast b)) + push_bit 24 (ucast a)"
    by (simp only: 2)
  also have "\<dots> = ((ucast d + push_bit 8 (ucast c)) + push_bit 16 (ucast b)) + push_bit 24 (ucast a)"
    by (simp only: 1)
  finally show ?thesis by (simp add: ac_simps a_def b_def c_def d_def)
qed

lemma be32_unat:
  "unat (BigEndian_Uint32 xs) =
     16777216 * unat (xs ! 0) + 65536 * unat (xs ! 1) + 256 * unat (xs ! 2) + unat (xs ! 3)"
proof -
  define a b c d where "a = xs ! 0" and "b = xs ! 1" and "c = xs ! 2" and "d = xs ! 3"
  have "unat (push_bit 24 (ucast a) + push_bit 16 (ucast b) + push_bit 8 (ucast c) + ucast d :: uint32)
      = (unat a * 16777216 + unat b * 65536 + unat c * 256 + unat d) mod 4294967296"
    by (simp add: push_bit_eq_mult unat_word_ariths unsigned_ucast_eq byte_take_bit mod_simps)
  also have "\<dots> = unat a * 16777216 + unat b * 65536 + unat c * 256 + unat d"
    using byte_lt [of a] byte_lt [of b] byte_lt [of c] byte_lt [of d] by simp
  finally show ?thesis by (simp add: be32_plus a_def b_def c_def d_def)
qed

lemma lbs_record_layout:
  assumes "1 + 10 * i + 10 \<le> length data"
  shows "lbs_layout data i (lbs_record data i)"
proof -
  show ?thesis
    using assms unfolding lbs_layout_def lbs_record_def Let_def
    by (simp add: be16_unat be32_unat mult.commute add.commute)
qed

text \<open>Claim C7. For a payload of at least one byte with \<open>N = data[0]\<close>, \<open>LBSList.Decode\<close>
  returns the length-mismatch error exactly when the payload is not \<open>1 + 10N\<close> bytes long
  (and then leaves the receiver as it was); otherwise it yields \<open>N\<close> records in order, record
  \<open>i\<close> holding the big-endian country code, the network code, the big-endian area code, the
  big-endian cell id and the signed signal strength of bytes \<open>1 + 10i\<close> to \<open>10 + 10i\<close>.\<close>

theorem LBSList_Decode_layout:
  assumes "1 \<le> length data"
  shows "(snd (LBSList_Decode lbss data) \<noteq> None \<longleftrightarrow> length data \<noteq> 1 + 10 * unat (data ! 0))
       \<and> (length data \<noteq> 1 + 10 * unat (data ! 0) \<longrightarrow>
            LBSList_Decode lbss data =
              (lbss, Some (ErrorLength ''invalid lbs data length''
                                       (1 + unat (data ! 0) * 10) (length data))))
       \<and> (length data = 1 + 10 * unat (data ! 0) \<longrightarrow>
            length (fst (LBSList_Decode lbss data)) = unat (data ! 0)
            \<and> (\<forall>i < unat (data ! 0). lbs_layout data i (fst (LBSList_Decode lbss data) ! i)))"
proof -
  have "lbs_layout data i (lbs_record data i)"
    if "length data = 1 + 10 * unat (data ! 0)" "i < unat (data ! 0)" for i
    using that by (intro lbs_record_layout) simp
  with assms show ?thesis
    by (auto simp: LBSList_Decode_def Let_def)
qed

theorem LBSList_Decode_layout_witness:
  "1 \<le> length [1, 1, 0xCC, 0, 0x12, 0x34, 1, 2, 3, 4, 0xFF :: byte]
   \<and> LBSList_Decode [] [1, 1, 0xCC, 0, 0x12, 0x34, 1, 2, 3, 4, 0xFF] =
       ([\<lparr>MCC = 460, MNC = 0, LAC = 0x1234, CellID = 0x01020304, RSSI = 0xFF\<rparr>], None)
   \<and> lbs_layout [1, 1, 0xCC, 0, 0x12, 0x34, 1, 2, 3, 4, 0xFF] 0
        \<lparr>MCC = 460, MNC = 0, LAC = 0x1234, CellID = 0x01020304, RSSI = 0xFF\<rparr>"
proof -
  have e: "LBSList_Decode [] [1, 1, 0xCC, 0, 0x12, 0x34, 1, 2, 3, 4, 0xFF] =
       ([\<lparr>MCC = 460, MNC = 0, LAC = 0x1234, CellID = 0x01020304, RSSI = 0xFF\<rparr>], None)"
    by (simp add: LBSList_Decode_def lbs_record_def BigEndian_Uint32_def)
  from LBSList_Decode_layout [of "[1, 1, 0xCC, 0, 0x12, 0x34, 1, 2, 3, 4, 0xFF]" "[]"] e
  show ?thesis by simp
qed

text \<open>The length check of \<open>WifiList.Decode\<close> is the one the claim states, and so are the
  number of records and the rendering of the address; but each record takes its signal
  strength from its first byte, the first byte of the address, and never reads its seventh.\<close>

lemma WifiList_Decode_length_check:
  "1 \<le> length data \<Longrightarrow>
   (snd (WifiList_Decode wifis data) \<noteq> None \<longleftrightarrow> length data \<noteq> 1 + 7 * unat (data ! 0))
   \<and> (length data = 1 + 7 * unat (data ! 0) \<longrightarrow>
        length (fst (WifiList_Decode wifis data)) = unat (data ! 0))"
  by (auto simp: WifiList_Decode_def Let_def)

lemma wifi_record_bytes:
  assumes "1 + 7 * i + 7 \<le> length data"
  shows "MAC (wifi_record data i) = concat (map hex02X (take 6 (drop (1 + 7 * i) data)))"
    and "WifiInfo.RSSI (wifi_record data i) = byteToDBM (data ! (1 + 7 * i))"
proof -
  define rec where "rec = drop (1 + 7 * i) data"
  from assms have "7 \<le> length rec" by (simp add: rec_def)
  then obtain a b c d e f g rest where r: "rec = a # b # c # d # e # f # g # rest"
    by (auto simp: Suc_le_length_iff numeral_eq_Suc)
  then show "MAC (wifi_record data i) = concat (map hex02X (take 6 (drop (1 + 7 * i) data)))"
    unfolding rec_def by (simp add: wifi_record_def mult.commute)
  from assms have "rec ! 0 = data ! (1 + 7 * i)" by (simp add: rec_def)
  with r show "WifiInfo.RSSI (wifi_record data i) = byteToDBM (data ! (1 + 7 * i))"
    unfolding rec_def by (simp add: wifi_record_def mult.commute)
qed

text \<open>Claim C3, where the code departs from it. The payload holds one record: the address
  \<open>FF:00:00:00:00:00\<close> followed by the signal byte 0. The claim gives the record the
  signal strength of its seventh byte, \<open>-90\<close>; \<open>WifiList.Decode\<close> gives it that of the first
  byte of the address, \<open>-30\<close>.\<close>

theorem WifiList_Decode_rssi_byte:
  "WifiList_Decode [] [1, 0xFF, 0, 0, 0, 0, 0, 0]
     = ([\<lparr>MAC = ''FF0000000000'', RSSI = byteToDBM 0xFF\<rparr>], None)
   \<and> sint (byteToDBM 0xFF) = - 30
   \<and> sint (byteToDBM 0) = - 90"
  by code_simp

section \<open>Properties of the location-report codec\<close>

lemma length_wr32 [simp]: "length (wr32 v) = 4" by (simp add: wr32_def)
lemma length_wr16 [simp]: "length (wr16 v) = 2" by (simp add: wr16_def)

lemma be32_wr32 [simp]: "BigEndian_Uint32 (wr32 v) = v"
proof (rule bit_word_eqI)
  fix n assume "n < LENGTH(32)"
  then consider "n < 8" | "8 \<le> n" "n < 16" | "16 \<le> n" "n < 24" | "24 \<le> n" "n < 32"
    by fastforce
  then show "bit (BigEndian_Uint32 (wr32 v)) n = bit v n"
  proof cases
    case 1 then show ?thesis by (auto simp: BigEndian_Uint32_def wr32_def bit_simps)
  next
    case 2 then show ?thesis by (auto simp: BigEndian_Uint32_def wr32_def bit_simps)
  next
    case 3 then show ?thesis by (auto simp: BigEndian_Uint32_def wr32_def bit_simps)
  next
    case 4 then show ?thesis by (auto simp: BigEndian_Uint32_def wr32_def bit_simps)
  qed
qed

lemma be16_wr16 [simp]: "BigEndian_Uint16 (wr16 v) = v"
proof (rule bit_word_eqI)
  fix n assume "n < LENGTH(16)"
  then consider "n < 8" | "8 \<le> n" "n < 16"
    by fastforce
  then show "bit (BigEndian_Uint16 (wr16 v)) n = bit v n"
  proof cases
    case 1 then show ?thesis by (auto simp: BigEndian_Uint16_def wr16_def bit_simps)
  next
    case 2 then show ?thesis by (auto simp: BigEndian_Uint16_def wr16_def bit_simps)
  qed
qed

lemma hex_digit_bcd: "c \<in> set ''0123456789'' \<Longrightarrow> hex_digit (bcd_digit c) = c \<and> bcd_digit c < 10"
  by (auto simp: hex_digit_def bcd_digit_def)

lemma hex02X_bcd:
  assumes "c1 \<in> set ''0123456789''" "c2 \<in> set ''0123456789''"
  shows "hex02X (of_nat (bcd_digit c1 * 16 + bcd_digit c2)) = [c1, c2]"
proof -
  from hex_digit_bcd [OF assms(1)] hex_digit_bcd [OF assms(2)]
  have d: "hex_digit (bcd_digit c1) = c1" "hex_digit (bcd_digit c2) = c2"
    "bcd_digit c1 < 10" "bcd_digit c2 < 10" by simp_all
  define N where "N = bcd_digit c1 * 16 + bcd_digit c2"
  with d have N: "N < 256" "N div 16 = bcd_digit c1" "N mod 16 = bcd_digit c2" by simp_all
  have "unat (of_nat N :: byte) = N mod 2 ^ LENGTH(8)" by (rule unat_of_nat)
  with N have "unat (of_nat N :: byte) = N" by simp
  with N d show ?thesis unfolding N_def [symmetric] by (simp add: hex02X_def)
qed

lemma Str2BCD_roundtrip:
  "decimal_digits s \<Longrightarrow> even (length s) \<Longrightarrow>
   concat (map hex02X (Str2BCD s)) = s \<and> 2 * length (Str2BCD s) = length s"
proof (induction s rule: Str2BCD.induct)
  case (1 c1 c2 cs)
  then have c: "c1 \<in> set ''0123456789''" "c2 \<in> set ''0123456789''"
    and r: "decimal_digits cs" "even (length cs)"
    by (simp_all add: decimal_digits_def)
  have "concat (map hex02X (Str2BCD (c1 # c2 # cs))) =
        hex02X (of_nat (bcd_digit c1 * 16 + bcd_digit c2)) @ concat (map hex02X (Str2BCD cs))"
    by (simp del: of_nat_add of_nat_mult)
  also have "\<dots> = [c1, c2] @ cs"
    using "1.IH" [OF r] by (simp only: hex02X_bcd [OF c])
  finally show ?case using "1.IH" [OF r] by simp
next
  case (2 c) then show ?case by simp
next
  case 3 then show ?case by simp
qed

lemma foldl_append_attach:
  "foldl (append_attach att) pkt ks = pkt @ concat (map (tlv_entry att) ks)"
  by (induction ks arbitrary: pkt) (simp_all add: append_attach_def tlv_entry_def Let_def)

lemma Encode_body_eq:
  "Msg0200_Encode_body m ids = fixed_part m @ concat (map (tlv_entry (AttachData m)) (sort ids))"
  by (simp add: Msg0200_Encode_body_def fixed_part_def foldl_append_attach
      WriteDoubleWord_def WriteWord_def WriteBCD_def wr32_def wr16_def)

lemma length_fixed_part: "length (Msg0200.Time m) = 12 \<Longrightarrow> decimal_digits (Msg0200.Time m) \<Longrightarrow> length (fixed_part m) = 28"
  using Str2BCD_roundtrip [of "Msg0200.Time m"] by (simp add: fixed_part_def)

declare attach_loop.simps [simp del]

lemma attach_loop_entries:
  assumes "\<forall>k \<in> set ks. length (attach_value att k) \<le> 255"
  shows "attach_loop \<lparr>elems = pre @ concat (map (tlv_entry att) ks), spare = sp\<rparr> (length pre) acc
         = Some (stored att acc ks)"
  using assms
proof (induction ks arbitrary: pre acc)
  case Nil
  show ?case by (simp add: attach_loop.simps [of _ "length pre"] stored_def)
next
  case (Cons k ks)
  define val where "val = attach_value att k"
  define lb :: byte where "lb = of_nat (length val)"
  define rest where "rest = concat (map (tlv_entry att) ks)"
  define pkt where "pkt = \<lparr>elems = pre @ (k # lb # val) @ rest, spare = sp\<rparr>"
  from Cons.prems have "length val \<le> 255" by (simp add: val_def)
  then have len: "unat lb = length val" by (simp add: lb_def unat_of_nat)
  have lt: "length pre < length (elems pkt)"
    by (simp add: pkt_def)
  have i0: "index_at pkt (length pre) = Some k"
    by (simp add: index_at_def pkt_def)
  have i1: "index_at pkt (length pre + 1) = Some lb"
    by (simp add: index_at_def pkt_def nth_append)
  have sl: "slice_of pkt (length pre + 2) (length pre + 2 + length val) = Some val"
    by (simp add: slice_of_def pkt_def)
  have step: "attach_loop pkt (length pre) acc
        = attach_loop pkt (length pre + 2 + length val) (acc(k \<mapsto> val))"
    by (subst attach_loop.simps) (simp only: lt if_True i0 i1 sl len Let_def option.case)
  have pk: "pkt = \<lparr>elems = (pre @ k # lb # val) @ rest, spare = sp\<rparr>"
    by (simp add: pkt_def)
  have ln: "length pre + 2 + length val = length (pre @ k # lb # val)" by simp
  have ih: "attach_loop \<lparr>elems = (pre @ k # lb # val) @ rest, spare = sp\<rparr>
              (length (pre @ k # lb # val)) (acc(k \<mapsto> val))
      = Some (stored att (acc(k \<mapsto> val)) ks)"
    unfolding rest_def using Cons.prems by (intro Cons.IH) simp
  have "attach_loop pkt (length pre) acc = Some (stored att (acc(k \<mapsto> val)) ks)"
    unfolding step ln unfolding pk by (rule ih)
  moreover have "tlv_entry att k = k # lb # val"
    by (simp add: tlv_entry_def val_def lb_def)
  ultimately show ?case
    by (simp add: pkt_def rest_def stored_def val_def)
qed

lemma stored_apply:
  "stored att acc ks x = (if x \<in> set ks then Some (attach_value att x) else acc x)"
  unfolding stored_def by (induction ks arbitrary: acc) auto

lemma stored_all: "set ks = dom att \<Longrightarrow> stored att Map.empty ks = att"
  by (rule ext) (auto simp: stored_apply attach_value_def domIff split: option.splits)

lemma Decode_fixed_part:
  assumes "length (Msg0200.Time m) = 12" "decimal_digits (Msg0200.Time m)"
  shows "Msg0200_Decode m0 \<lparr>PacketData.Header = h, Body = \<lparr>elems = fixed_part m @ T, spare = sp\<rparr>\<rparr>
       = (case attach_loop \<lparr>elems = fixed_part m @ T, spare = sp\<rparr> 28 Map.empty of
            None \<Rightarrow> None
          | Some att \<Rightarrow> Some (m\<lparr>Msg0200.Header := h, AttachData := att\<rparr>, None))"
proof -
  from Str2BCD_roundtrip [of "Msg0200.Time m"] assms
  have t: "concat (map hex02X (Str2BCD (Msg0200.Time m))) = Msg0200.Time m"
    "length (Str2BCD (Msg0200.Time m)) = 6" by simp_all
  show ?thesis
    using t unfolding Msg0200_Decode_def fixed_part_def
    by (cases m; cases m0)
      (simp add: ReadDoubleWord_def ReadWord_def ReadBCD_def Let_def split: option.splits)
qed

lemma wire_tags_entries:
  "\<forall>k \<in> set ks. length (attach_value att k) \<le> 255 \<Longrightarrow>
   wire_tags (concat (map (tlv_entry att) ks)) = Some ks"
proof (induction ks)
  case Nil
  show ?case by simp
next
  case (Cons k ks)
  then have "length (attach_value att k) \<le> 255" by simp
  then have "unat (of_nat (length (attach_value att k)) :: byte) = length (attach_value att k)"
    by (simp add: unat_of_nat)
  with Cons show ?case by (simp add: tlv_entry_def)
qed

lemma valid_values:
  assumes "Msg0200_valid m" "set ks = dom (AttachData m)"
  shows "\<forall>k \<in> set ks. length (attach_value (AttachData m) k) \<le> 255"
  using assms by (auto simp: Msg0200_valid_def attach_value_def)

lemma range_order_sort:
  assumes "range_order att ids" "range_order att ids'"
  shows "sort ids' = sort ids"
  using assms unfolding range_order_def
  by (intro sorted_distinct_set_unique) simp_all

text \<open>Claim C5. For every valid report (a timestamp of twelve decimal digits, attachment
  values of at most 255 bytes) and every order in which the map's keys are visited, decoding
  the body that \<open>Msg0200.Encode\<close> builds gives back every fixed field and the attachment map;
  the tags of the encoded entries are the keys in strictly ascending order, and the body
  is the same for every order of visiting the keys. The helpers of package \<open>hex\<close> are
  modelled from the specification.\<close>

theorem Msg0200_roundtrip:
  assumes "Msg0200_valid m" and "range_order (AttachData m) ids"
  shows "Msg0200_Decode m0
           \<lparr>PacketData.Header = h, Body = \<lparr>elems = Msg0200_Encode_body m ids, spare = sp\<rparr>\<rparr>
         = Some (m\<lparr>Msg0200.Header := h\<rparr>, None)
       \<and> wire_tags (drop 28 (Msg0200_Encode_body m ids)) = Some (sort ids)
       \<and> sorted_wrt (<) (sort ids)
       \<and> set (sort ids) = dom (AttachData m)
       \<and> (\<forall>ids'. range_order (AttachData m) ids' \<longrightarrow>
             Msg0200_Encode_body m ids' = Msg0200_Encode_body m ids)"
proof -
  from assms(1) have t: "length (Msg0200.Time m) = 12" "decimal_digits (Msg0200.Time m)"
    by (simp_all add: Msg0200_valid_def)
  from assms(2) have s: "set (sort ids) = dom (AttachData m)" "distinct (sort ids)"
    by (simp_all add: range_order_def)
  have v: "\<forall>k \<in> set (sort ids). length (attach_value (AttachData m) k) \<le> 255"
    by (rule valid_values [OF assms(1) s(1)])
  have len: "length (fixed_part m) = 28" by (rule length_fixed_part [OF t])
  have "attach_loop \<lparr>elems = fixed_part m @ concat (map (tlv_entry (AttachData m)) (sort ids)),
                      spare = sp\<rparr> (length (fixed_part m)) Map.empty
        = Some (stored (AttachData m) Map.empty (sort ids))"
    by (rule attach_loop_entries [OF v])
  then have loop: "attach_loop \<lparr>elems = fixed_part m @ concat (map (tlv_entry (AttachData m)) (sort ids)),
                      spare = sp\<rparr> 28 Map.empty = Some (AttachData m)"
    by (simp only: len stored_all [OF s(1)])
  have 1: "Msg0200_Decode m0
           \<lparr>PacketData.Header = h, Body = \<lparr>elems = Msg0200_Encode_body m ids, spare = sp\<rparr>\<rparr>
         = Some (m\<lparr>Msg0200.Header := h\<rparr>, None)"
    unfolding Encode_body_eq Decode_fixed_part [OF t] loop by simp
  have 2: "wire_tags (drop 28 (Msg0200_Encode_body m ids)) = Some (sort ids)"
    unfolding Encode_body_eq using len wire_tags_entries [OF v] by simp
  have 3: "sorted_wrt (<) (sort ids)"
    using s(2) by (simp add: strict_sorted_iff)
  have 4: "Msg0200_Encode_body m ids' = Msg0200_Encode_body m ids"
    if "range_order (AttachData m) ids'" for ids'
    unfolding Encode_body_eq using range_order_sort [OF assms(2) that] by simp
  from 1 2 3 4 s(1) show ?thesis by blast
qed

theorem Msg0200_roundtrip_witness:
  "Msg0200_valid sample_Msg0200
   \<and> range_order (AttachData sample_Msg0200) [0x54, 0x04]
   \<and> Msg0200_Decode sample_Msg0200
         \<lparr>PacketData.Header = (),
          Body = \<lparr>elems = Msg0200_Encode_body sample_Msg0200 [0x54, 0x04], spare = []\<rparr>\<rparr>
       = Some (sample_Msg0200, None)
   \<and> wire_tags (drop 28 (Msg0200_Encode_body sample_Msg0200 [0x54, 0x04])) = Some [0x04, 0x54]
   \<and> range_order (AttachData sample_Msg0200) [0x04, 0x54]
   \<and> Msg0200_Encode_body sample_Msg0200 [0x04, 0x54] = Msg0200_Encode_body sample_Msg0200 [0x54, 0x04]"
proof -
  have v: "Msg0200_valid sample_Msg0200"
    by (auto simp: Msg0200_valid_def sample_Msg0200_def decimal_digits_def split: if_splits)
  have r: "range_order (AttachData sample_Msg0200) [0x54, 0x04]"
    by (auto simp: range_order_def sample_Msg0200_def)
  have r': "range_order (AttachData sample_Msg0200) [0x04, 0x54]"
    by (auto simp: range_order_def sample_Msg0200_def)
  have s: "sort [0x54, 0x04 :: byte] = [0x04, 0x54]"
    by code_simp
  have h: "sample_Msg0200\<lparr>Msg0200.Header := ()\<rparr> = sample_Msg0200"
    by simp
  note R = Msg0200_roundtrip [OF v r, of sample_Msg0200 "()" "[]"]
  from R have 1: "Msg0200_Decode sample_Msg0200
         \<lparr>PacketData.Header = (),
          Body = \<lparr>elems = Msg0200_Encode_body sample_Msg0200 [0x54, 0x04], spare = []\<rparr>\<rparr>
       = Some (sample_Msg0200, None)"
    by (simp only: h)
  from R have 2: "wire_tags (drop 28 (Msg0200_Encode_body sample_Msg0200 [0x54, 0x04])) = Some [0x04, 0x54]"
    by (simp only: s)
  from R r' have 3: "Msg0200_Encode_body sample_Msg0200 [0x04, 0x54] = Msg0200_Encode_body sample_Msg0200 [0x54, 0x04]"
    by blast
  from v r r' 1 2 3 show ?thesis by blast
qed

text \<open>\<open>Msg0200.Decode\<close> has no error result other than nil: where it returns, it returns
  nil. An entry whose declared length reaches past the capacity of the body makes it panic;
  one that reaches past the length but not past the capacity is read, with bytes that are
  not part of the body.\<close>

lemma Msg0200_Decode_never_errors:
  "Msg0200_Decode m packet = Some (m', err) \<Longrightarrow> err = None"
  by (auto simp: Msg0200_Decode_def Let_def split: Option.bind_splits prod.splits)

lemma attach_loop_overlong:
  assumes "idx + 1 < length (elems pkt)"
    and "length (elems pkt) + length (spare pkt) < idx + 2 + unat (elems pkt ! (idx + 1))"
  shows "attach_loop pkt idx att = None"
  using assms by (subst attach_loop.simps) (simp add: index_at_def slice_of_def Let_def)

lemma attach_loop_overread:
  assumes "idx + 1 < length (elems pkt)"
    and "length (elems pkt) < idx + 2 + unat (elems pkt ! (idx + 1))"
    and "idx + 2 + unat (elems pkt ! (idx + 1)) \<le> length (elems pkt) + length (spare pkt)"
  shows "attach_loop pkt idx att =
     Some (att(elems pkt ! idx \<mapsto>
       take (unat (elems pkt ! (idx + 1))) (drop (idx + 2) (elems pkt @ spare pkt))))"
proof -
  define len where "len = unat (elems pkt ! (idx + 1))"
  have "attach_loop pkt (idx + 2 + len) att' = Some att'" for att'
    using assms(2) by (subst attach_loop.simps) (simp add: len_def)
  with assms show ?thesis
    by (subst attach_loop.simps) (simp add: index_at_def slice_of_def Let_def len_def)
qed

text \<open>Claim C2, where the code departs from it. The body is a fixed part of 28 zero bytes
  and one attachment with tag 1 that declares five bytes of value and carries one. The
  claim has \<open>Msg0200.Decode\<close> return an error. When the capacity of the body is its length
  the function panics on the slice expression; when six more bytes of the backing array
  follow the body it returns nil and stores four of them in the attachment.\<close>

theorem Msg0200_Decode_overlong_tlv:
  "Msg0200_Decode sample_Msg0200
     \<lparr>PacketData.Header = (), Body = \<lparr>elems = overlong_body, spare = []\<rparr>\<rparr> = None
   \<and> map_option (\<lambda>(m, err). (AttachData m 0x01, err))
        (Msg0200_Decode sample_Msg0200
           \<lparr>PacketData.Header = (), Body = \<lparr>elems = overlong_body, spare = [1, 2, 3, 4, 5, 6]\<rparr>\<rparr>)
     = Some (Some [0xAA, 1, 2, 3, 4], None)"
  by code_simp

section \<open>Properties of the device cache\<close>

text \<open>Claim C6. Right after \<open>CacheDevice(d)\<close> the lookups by \<open>d\<close>'s phone and by \<open>d\<close>'s plate
  both return \<open>d\<close>; after a following delete by either key both lookups return
  \<open>ErrDeviceNotFound\<close>.\<close>

theorem put_then_delete:
  "GetDeviceByPhone (CacheDevice c d) (Device.Phone d) = Inr d
   \<and> GetDeviceByPlate (CacheDevice c d) (Plate d) = Inr d
   \<and> GetDeviceByPhone (DelDeviceByPhone (CacheDevice c d) (Device.Phone d)) (Device.Phone d)
       = Inl ErrDeviceNotFound
   \<and> GetDeviceByPlate (DelDeviceByPhone (CacheDevice c d) (Device.Phone d)) (Plate d)
       = Inl ErrDeviceNotFound
   \<and> GetDeviceByPhone (DelDeviceByCarPlate (CacheDevice c d) (Plate d)) (Device.Phone d)
       = Inl ErrDeviceNotFound
   \<and> GetDeviceByPlate (DelDeviceByCarPlate (CacheDevice c d) (Plate d)) (Plate d)
       = Inl ErrDeviceNotFound"
  by (simp add: GetDeviceByPhone_def GetDeviceByPlate_def CacheDevice_def cacheDevice_def
      DelDeviceByPhone_def DelDeviceByCarPlate_def delDevice_def)

text \<open>Claim C9. A put never removes a stale entry of the plate index. Of two devices with
  the same phone and different plates, put one after the other, the first is still found
  under its plate while its phone finds the second. Of two devices with the same plate and
  different phones, the first is still found under its phone while its plate finds the
  second: the two indices do not agree on the first device.\<close>

theorem put_keeps_stale_plate:
  "(Device.Phone d1 = Device.Phone d2 \<and> Plate d1 \<noteq> Plate d2 \<longrightarrow>
      GetDeviceByPlate (CacheDevice (CacheDevice c d1) d2) (Plate d1) = Inr d1
      \<and> GetDeviceByPhone (CacheDevice (CacheDevice c d1) d2) (Device.Phone d1) = Inr d2)
   \<and> (Plate d1 = Plate d2 \<and> Device.Phone d1 \<noteq> Device.Phone d2 \<longrightarrow>
      GetDeviceByPhone (CacheDevice (CacheDevice c d1) d2) (Device.Phone d1) = Inr d1
      \<and> GetDeviceByPlate (CacheDevice (CacheDevice c d1) d2) (Plate d1) = Inr d2)"
  by (simp add: GetDeviceByPhone_def GetDeviceByPlate_def CacheDevice_def cacheDevice_def)

theorem put_keeps_stale_plate_witness:
  "Device.Phone (sample_Device ''A1'' ''138'') = Device.Phone (sample_Device ''B2'' ''138'')
   \<and> Plate (sample_Device ''A1'' ''138'') \<noteq> Plate (sample_Device ''B2'' ''138'')
   \<and> GetDeviceByPlate (CacheDevice (CacheDevice new_DeviceCache (sample_Device ''A1'' ''138''))
         (sample_Device ''B2'' ''138'')) ''A1'' = Inr (sample_Device ''A1'' ''138'')
   \<and> GetDeviceByPhone (CacheDevice (CacheDevice new_DeviceCache (sample_Device ''A1'' ''138''))
         (sample_Device ''B2'' ''138'')) ''138'' = Inr (sample_Device ''B2'' ''138'')
   \<and> Plate (sample_Device [] ''138'') = Plate (sample_Device [] ''139'')
   \<and> Device.Phone (sample_Device [] ''138'') \<noteq> Device.Phone (sample_Device [] ''139'')
   \<and> GetDeviceByPhone (CacheDevice (CacheDevice new_DeviceCache (sample_Device [] ''138''))
         (sample_Device [] ''139'')) ''138'' = Inr (sample_Device [] ''138'')
   \<and> GetDeviceByPlate (CacheDevice (CacheDevice new_DeviceCache (sample_Device [] ''138''))
         (sample_Device [] ''139'')) [] = Inr (sample_Device [] ''139'')
   \<and> sample_Device [] ''138'' \<noteq> sample_Device [] ''139''"
  using put_keeps_stale_plate [of "sample_Device ''A1'' ''138''" "sample_Device ''B2'' ''138''" new_DeviceCache]
    put_keeps_stale_plate [of "sample_Device [] ''138''" "sample_Device [] ''139''" new_DeviceCache]
  by (simp add: sample_Device_def)

section \<open>Properties of the persister\<close>

declare saveWithRetry_from.simps [simp del]
declare loadWithRetry_from.simps [simp del]

lemma atomicLoad_updated: "updated (fst (atomicLoad p fault w data)) = updated data"
  by (simp add: atomicLoad_def json_Unmarshal_def split: read_result.splits file_data.splits)

lemma loadWithRetry_from_updated:
  "updated (fst (snd (loadWithRetry_from p sched i err w data))) = updated data"
proof (induction p sched i err w data rule: loadWithRetry_from.induct)
  case (1 p sched i err w data)
  show ?case
  proof (cases "i < maxRetryAttempts")
    case False
    then show ?thesis by (subst loadWithRetry_from.simps) simp
  next
    case True
    obtain data' e where a: "atomicLoad p (sched i) w data = (data', e)" by force
    with atomicLoad_updated [of p "sched i" w data] have u: "updated data' = updated data" by simp
    show ?thesis
    proof (cases e)
      case None
      with True a u show ?thesis by (subst loadWithRetry_from.simps) simp
    next
      case (Some x)
      with True a u "1.IH" [OF True a [symmetric] Some] show ?thesis
        by (subst loadWithRetry_from.simps) simp
    qed
  qed
qed

text \<open>The deletes of this cache leave the flag as it is.\<close>

lemma delete_keeps_flag:
  "IsUpdated (DelDeviceByPhone c k) = IsUpdated c"
  "IsUpdated (DelDeviceByCarPlate c k) = IsUpdated c"
  by (simp_all add: IsUpdated_def DelDeviceByPhone_def DelDeviceByCarPlate_def delDevice_def
      split: option.splits)

text \<open>Claim C4, as amended. The flag is true right after any \<open>CacheDevice\<close>. Nothing clears
  it: \<open>Save\<close>, \<open>Load\<close> and a tick of \<open>autoSave\<close> leave the flag as it was, whether they
  succeed or fail.\<close>

theorem dirty_flag_never_cleared:
  "IsUpdated (CacheDevice c d)
   \<and> IsUpdated (fst (snd (Save p sched w c))) = IsUpdated c
   \<and> IsUpdated (fst (snd (Load p sched w c))) = IsUpdated c
   \<and> IsUpdated (snd (snd (autoSave_tick p sched w c))) = IsUpdated c"
  by (simp add: IsUpdated_def CacheDevice_def Save_def Load_def loadWithRetry_def
      loadWithRetry_from_updated autoSave_tick_def split: prod.splits)

text \<open>Claim C4 as stated fails. After a put, a save in which no call fails returns nil
  and has written the snapshot file, and the flag of the cache is still true. And in the
  cache loaded from a snapshot, deleting the device it holds removes the device and leaves
  the flag false.\<close>

theorem save_leaves_flag_set:
  "snd (snd (Save sample_Persister no_faults sample_world
               (CacheDevice new_DeviceCache (sample_Device ''A1'' ''138'')))) = None
   \<and> IsUpdated (fst (snd (Save sample_Persister no_faults sample_world
               (CacheDevice new_DeviceCache (sample_Device ''A1'' ''138'')))))
   \<and> files (fst (Save sample_Persister no_faults sample_world
               (CacheDevice new_DeviceCache (sample_Device ''A1'' ''138''))))
        ''device_cache.json'' \<noteq> None
   \<and> GetDeviceByPhone loaded_cache ''138'' = Inr (json_Device (sample_Device ''A1'' ''138''))
   \<and> GetDeviceByPhone (DelDeviceByPhone loaded_cache ''138'') ''138'' = Inl ErrDeviceNotFound
   \<and> \<not> IsUpdated (DelDeviceByPhone loaded_cache ''138'')"
  by (simp add: Save_def saveWithRetry_def saveWithRetry_from.simps atomicSave_def
      json_MarshalIndent_def maxRetryAttempts_def CacheDevice_def cacheDevice_def IsUpdated_def
      no_faults_def sample_Persister_def sample_world_def loaded_cache_def Load_def
      loadWithRetry_def loadWithRetry_from.simps atomicLoad_def os_ReadFile_def
      snapshot_world_def json_Unmarshal_def new_DeviceCache_def GetDeviceByPhone_def
      DelDeviceByPhone_def delDevice_def json_Device_def sample_Device_def split: prod.splits)

text \<open>Claim C8. When the snapshot file does not exist (and reading it does not fail for
  another reason), \<open>Load\<close> returns nil on its first attempt: the entity is as it was, and so
  is the world, in which no retry delay has been slept.\<close>

theorem Load_missing_file:
  assumes "files w (filePath p) = None" and "sched 0 \<noteq> Some ReadFault"
  shows "Load p sched w data = (w, data, None)"
  using assms
  by (simp add: Load_def loadWithRetry_def loadWithRetry_from.simps [of _ _ 0] atomicLoad_def
      os_ReadFile_def maxRetryAttempts_def)

theorem Load_missing_file_witness:
  "files sample_world (filePath sample_Persister) = None
   \<and> no_faults 0 \<noteq> Some ReadFault
   \<and> Load sample_Persister no_faults sample_world
        (CacheDevice new_DeviceCache (sample_Device ''A1'' ''138''))
      = (sample_world, CacheDevice new_DeviceCache (sample_Device ''A1'' ''138''), None)"
proof -
  have a: "files sample_world (filePath sample_Persister) = None"
    by (simp add: sample_world_def)
  have b: "no_faults 0 \<noteq> Some ReadFault"
    by (simp add: no_faults_def)
  from Load_missing_file [where w = sample_world and p = sample_Persister and sched = no_faults,
      OF a b] a b
  show ?thesis by simp
qed

section \<open>Properties of DeviceGeo.Decode\<close>

lemma WifiInfos_kept:
  "WifiInfos (decode_lbs dg m) = WifiInfos dg"
  "WifiInfos (decode_battery dg m) = WifiInfos dg"
  "WifiInfos (decode_csq dg m) = WifiInfos dg"
  "WifiInfos (decode_satellite dg m) = WifiInfos dg"
  by (simp_all add: decode_lbs_def decode_battery_def decode_csq_def decode_satellite_def
      split: option.splits)

lemma LBSInfos_kept:
  "LBSInfos (decode_battery dg m) = LBSInfos dg"
  "LBSInfos (decode_csq dg m) = LBSInfos dg"
  "LBSInfos (decode_satellite dg m) = LBSInfos dg"
  by (simp_all add: decode_battery_def decode_csq_def decode_satellite_def split: option.splits)

lemma Battery_kept:
  "Battery (decode_csq dg m) = Battery dg"
  "Battery (decode_satellite dg m) = Battery dg"
  by (simp_all add: decode_csq_def decode_satellite_def split: option.splits)

lemma Battery_kept_all:
  "Battery (decode_wifi dg m) = Battery dg"
  "Battery (decode_lbs dg m) = Battery dg"
  "LBSInfos (decode_wifi dg m) = LBSInfos dg"
  by (simp_all add: decode_wifi_def decode_lbs_def Let_def split: option.splits)




end
